theory Spec2Isabelle
  imports Main "HOL-Library.Char_ord" "HOL-Library.List_Lexorder" "HOL-Library.Product_Lexorder"
    "HOL-Library.Multiset"
begin

section \<open>Python strings as used by the orchestrator\<close>

text \<open>
  Strings are \<^typ>\<open>string\<close>; a character stands for a code point below 256.
  \<open>is_space\<close> is the whitespace test of \<^verbatim>\<open>str.strip()\<close> on that range,
  \<open>split_comma\<close> is \<^verbatim>\<open>s.split(",")\<close> (it always returns at least one part) and
  \<open>join_comma_space\<close> is \<^verbatim>\<open>", ".join(xs)\<close>.
\<close>

definition is_space :: "char \<Rightarrow> bool" where
  "is_space c = ((of_char c :: nat) \<in> {9, 10, 11, 12, 13, 28, 29, 30, 31, 32, 133, 160})"

definition strip :: "string \<Rightarrow> string" where
  "strip s = rev (dropWhile is_space (rev (dropWhile is_space s)))"

fun split_comma :: "string \<Rightarrow> string list" where
  "split_comma [] = [[]]"
| "split_comma (c # cs) =
     (if c = CHR '','' then [] # split_comma cs
      else (case split_comma cs of [] \<Rightarrow> [[c]] | p # ps \<Rightarrow> (c # p) # ps))"

fun join_comma_space :: "string list \<Rightarrow> string" where
  "join_comma_space [] = []"
| "join_comma_space [x] = x"
| "join_comma_space (x # y # ys) = x @ '', '' @ join_comma_space (y # ys)"

text \<open>The comprehension \<^verbatim>\<open>[s.strip() for s in csv.split(",") if s.strip()]\<close>.\<close>

definition csv_entries :: "string \<Rightarrow> string list" where
  "csv_entries s = filter (\<lambda>t. t \<noteq> []) (map strip (split_comma s))"

text \<open>
  \<^verbatim>\<open>_safe_split_docnums\<close>: a list is taken as it is (its elements already
  converted with \<^verbatim>\<open>str\<close>); a string loses its brackets and is split at commas.
\<close>

datatype docnums = DocList "string list" | DocStr string

definition safe_split_docnums :: "docnums \<Rightarrow> string list" where
  "safe_split_docnums val =
     (case val of
        DocList xs \<Rightarrow> xs
      | DocStr s0 \<Rightarrow>
          (let s = filter (\<lambda>c. c \<noteq> CHR ''['' \<and> c \<noteq> CHR '']'') s0
           in if strip s = [] then [] else csv_entries s))"

text \<open>
  \<^verbatim>\<open>_append_unique\<close>: the loop over \<^verbatim>\<open>new_items\<close> appends an item that is
  not yet among the existing entries (\<^verbatim>\<open>existing_set\<close> holds the elements of
  \<^verbatim>\<open>existing\<close> at every iteration, so membership in the list is the test).
\<close>

fun append_new :: "string list \<Rightarrow> string list \<Rightarrow> string list" where
  "append_new existing [] = existing"
| "append_new existing (x # xs) =
     (if x \<notin> set existing then append_new (existing @ [x]) xs else append_new existing xs)"

definition append_unique :: "string \<Rightarrow> string list \<Rightarrow> string" where
  "append_unique csv_str new_items =
     join_comma_space (append_new (csv_entries csv_str) new_items)"

section \<open>Tables\<close>

text \<open>
  A data frame is the list of its rows. The batch table carries the batch name, the
  document numbers and, when the column exists, the due date (\<open>None\<close> is a missing
  value, which a sort puts last). Output and error rows are copies of the batch row with
  the added columns.
\<close>

record batch_row =
  PPG_BatchName :: string
  DocNums :: docnums
  minDocDueDate :: "int option"

record out_row = batch_row +
  ordersBatched :: string
  soCount :: nat

record err_row = batch_row +
  err_soNum :: string
  err_reason :: string

record batches_df =
  has_minDocDueDate :: bool
  df_rows :: "batch_row list"

record bom_row =
  DocNum :: string
  LineNum :: int
  ItemCode :: string
  U_PLS_PPG_ITEM :: string

record ppg_order =
  MasterorderId :: string
  MasterorderName :: string
  OrderstatusType :: int

record ppg_batch =
  WorkorderId :: string
  WorkorderName :: string

record ppg_woline =
  WorkorderlineId :: string
  MasterorderlineId :: string
  wol_MasterorderId :: string

section \<open>The remote service\<close>

text \<open>
  The remote order service and the SQL mirror are external. They are a record of
  functions over an abstract world \<^typ>\<open>'w\<close>: every call returns its answer and the next
  world, so a theorem that quantifies over the record and the world holds for every
  behaviour of the service (stale snapshots, late visibility, any status code).
  An HTTP call answers \<open>None\<close> when \<^verbatim>\<open>requests.request\<close> raises (timeout,
  connection error) and \<open>Some r\<close> when a response arrives. The snapshot reads return
  their rows. A loop bounded by elapsed wall-clock time runs as many polls as fit its
  window; \<open>polls_in_window\<close> gives that number, so the theorems hold for every timing.
  Sleeping only lets time pass in the world and has no function of its own.
\<close>

datatype jv = JNull | JBool bool | JNum int | JStr string | JArr "jv list" | JObj "(string \<times> jv) list"

fun truthy :: "jv \<Rightarrow> bool" where
  "truthy JNull = False"
| "truthy (JBool b) = b"
| "truthy (JNum n) = (n \<noteq> 0)"
| "truthy (JStr s) = (s \<noteq> [])"
| "truthy (JArr xs) = (xs \<noteq> [])"
| "truthy (JObj kvs) = (kvs \<noteq> [])"

datatype body = NotJson | Json jv

datatype response = Response (status_code: nat) (body: body)

datatype window = CreateGrace | AddPrewait | FinalWait

record 'w remote =
  run_sapBOMQuery :: "string list \<Rightarrow> 'w \<Rightarrow> bom_row list \<times> 'w"
  run_getOpenPPGPickOrders :: "'w \<Rightarrow> ppg_order list \<times> 'w"
  run_getOpenPPGPickOrders_specific :: "string \<Rightarrow> 'w \<Rightarrow> ppg_order list \<times> 'w"
  run_getOpenPPGBatches_specific :: "string \<Rightarrow> 'w \<Rightarrow> ppg_batch list \<times> 'w"
  run_getOpenPPGWOLines_specific :: "string \<Rightarrow> 'w \<Rightarrow> ppg_woline list \<times> 'w"
  post_orders :: "string \<Rightarrow> bom_row list \<Rightarrow> 'w \<Rightarrow> response option \<times> 'w"
  put_work_order_line :: "string \<Rightarrow> string \<Rightarrow> nat \<Rightarrow> 'w \<Rightarrow> response option \<times> 'w"
  post_batches :: "string \<Rightarrow> 'w \<Rightarrow> response option \<times> 'w"
  put_orders_deallocate :: "string \<Rightarrow> 'w \<Rightarrow> response option \<times> 'w"
  delete_orders :: "string \<Rightarrow> 'w \<Rightarrow> response option \<times> 'w"
  polls_in_window :: "window \<Rightarrow> 'w \<Rightarrow> nat"

text \<open>
  Module constants: \<open>env_ok\<close> says that \<^verbatim>\<open>base_url\<close> and \<^verbatim>\<open>auth_token\<close> are set
  (the test of \<^verbatim>\<open>_require_env\<close>).
\<close>

record config =
  env_ok :: bool
  WOL_POLL_ATTEMPTS :: int

datatype exn = ValueError string | KeyError string

fun exn_str :: "exn \<Rightarrow> string" where
  "exn_str (ValueError m) = m"
| "exn_str (KeyError k) = [CHR 0x27] @ k @ [CHR 0x27]"

definition require_env_msg :: string where
  "require_env_msg = ''ITEMPATH_URL and ITEMPATH_APPLICATION_TOKEN must be set in the .env file''"

text \<open>
  The telemetry events the claims refer to, as \<^verbatim>\<open>log_event\<close> writes them:
  \<^verbatim>\<open>order.create.send\<close>, the acknowledgement of the create request with its status
  (\<open>None\<close> when the transport raised), \<^verbatim>\<open>ppg.orders.snapshot.preCreate\<close> with
  whether the order was visible, and \<^verbatim>\<open>batch.assign.try\<close> with the order, the
  work-order line, the batch id, the rank, the attempt number and whether it succeeded.
\<close>

datatype event =
    CreateSend string
  | CreateAck string "nat option"
  | PreCreateSnapshot string bool
  | AssignTry string string string nat nat bool

record 'w sys =
  world :: 'w
  telem :: "event list"

definition emit :: "event \<Rightarrow> 'w sys \<Rightarrow> 'w sys" where
  "emit e s = s\<lparr>telem := telem s @ [e]\<rparr>"

definition call :: "('w \<Rightarrow> 'a \<times> 'w) \<Rightarrow> 'w sys \<Rightarrow> 'a \<times> 'w sys" where
  "call f s = (case f (world s) of (r, w) \<Rightarrow> (r, s\<lparr>world := w\<rparr>))"

text \<open>
  The value \<^verbatim>\<open>createFullSOPickOrder\<close> returns: a boolean or a dictionary (the
  server's JSON, or the sentinel).
\<close>

datatype pyval = PBool bool | PDict "(string \<times> jv) list"

definition DEFER_CREATE_SENTINEL :: pyval where
  "DEFER_CREATE_SENTINEL = PDict [(''defer_create'', JBool True)]"

text \<open>\<^verbatim>\<open>isinstance(created, dict) and created.get("defer_create")\<close>, as a truth value.\<close>

definition is_defer_create :: "pyval \<Rightarrow> bool" where
  "is_defer_create created =
     (case created of
        PBool b \<Rightarrow> False
      | PDict d \<Rightarrow> (case map_of d ''defer_create'' of None \<Rightarrow> False | Some v \<Rightarrow> truthy v))"

text \<open>The truth value of \<^verbatim>\<open>created\<close>: an empty dictionary is false.\<close>

definition py_bool :: "pyval \<Rightarrow> bool" where
  "py_bool created = (case created of PBool b \<Rightarrow> b | PDict d \<Rightarrow> d \<noteq> [])"

section \<open>The order lifecycle (newOrderValidation.py)\<close>

text \<open>
  Every function takes the system state and returns its result with the next state.
  A function that can raise returns \<open>Inl e\<close> with the state at the raise.
\<close>

definition checkAllocation :: "ppg_order list \<Rightarrow> bool" where
  "checkAllocation dfPPG_order =
     (if dfPPG_order \<noteq> [] then OrderstatusType (hd dfPPG_order) \<in> {10, 11} else False)"

text \<open>
  The HTTP helpers. Each one raises \<^verbatim>\<open>ValueError\<close> from \<^verbatim>\<open>_require_env\<close>
  before it sends anything; every other exception is caught inside the helper.
\<close>

definition deAllocateOrder_itemPathHelper ::
  "config \<Rightarrow> 'w remote \<Rightarrow> string \<Rightarrow> 'w sys \<Rightarrow> (exn + response option) \<times> 'w sys" where
  "deAllocateOrder_itemPathHelper cfg env order_id s =
     (if \<not> env_ok cfg then (Inl (ValueError require_env_msg), s)
      else (case call (put_orders_deallocate env order_id) s of
              (x, s1) \<Rightarrow>
                (Inr (case x of
                        None \<Rightarrow> None
                      | Some r \<Rightarrow>
                          if 400 \<le> status_code r \<and> status_code r < 600 then None else Some r),
                 s1)))"

definition deleteOrder_itemPathHelper ::
  "config \<Rightarrow> 'w remote \<Rightarrow> string \<Rightarrow> 'w sys \<Rightarrow> (exn + response option) \<times> 'w sys" where
  "deleteOrder_itemPathHelper cfg env order_id s =
     (if \<not> env_ok cfg then (Inl (ValueError require_env_msg), s)
      else (case call (delete_orders env order_id) s of (x, s1) \<Rightarrow> (Inr x, s1)))"

definition createBatch_itemPathHelper ::
  "config \<Rightarrow> 'w remote \<Rightarrow> string \<Rightarrow> 'w sys \<Rightarrow> (exn + response option) \<times> 'w sys" where
  "createBatch_itemPathHelper cfg env batchName s =
     (if \<not> env_ok cfg then (Inl (ValueError require_env_msg), s)
      else (case call (post_batches env batchName) s of (x, s1) \<Rightarrow> (Inr x, s1)))"

definition update_work_order_line_itempathhelper ::
  "config \<Rightarrow> 'w remote \<Rightarrow> string \<Rightarrow> string \<Rightarrow> nat \<Rightarrow> 'w sys \<Rightarrow> (exn + response option) \<times> 'w sys" where
  "update_work_order_line_itempathhelper cfg env work_order_line_id batch_id handling_rank s =
     (if \<not> env_ok cfg then (Inl (ValueError require_env_msg), s)
      else (case call (put_work_order_line env work_order_line_id batch_id handling_rank) s of
              (x, s1) \<Rightarrow> (Inr x, s1)))"

text \<open>
  \<^verbatim>\<open>deAllocateOrder\<close> and \<^verbatim>\<open>deleteOrder\<close>: the loop runs while the counter is at
  most 60, so 61 times; the first argument counts the iterations left.
\<close>

fun deAllocateOrder_loop ::
  "nat \<Rightarrow> config \<Rightarrow> 'w remote \<Rightarrow> string \<Rightarrow> 'w sys \<Rightarrow> (exn + bool) \<times> 'w sys" where
  "deAllocateOrder_loop 0 cfg env orderName s = (Inr False, s)"
| "deAllocateOrder_loop (Suc n) cfg env orderName s =
     (case call (run_getOpenPPGPickOrders_specific env orderName) s of
        (dfPPG, s1) \<Rightarrow>
          if dfPPG = [] then (Inr True, s1)
          else if \<not> checkAllocation dfPPG then (Inr True, s1)
          else (case deAllocateOrder_itemPathHelper cfg env (MasterorderId (hd dfPPG)) s1 of
                  (Inl e, s2) \<Rightarrow> (Inl e, s2)
                | (Inr deAllocated, s2) \<Rightarrow> deAllocateOrder_loop n cfg env orderName s2))"

definition deAllocateOrder ::
  "config \<Rightarrow> 'w remote \<Rightarrow> string \<Rightarrow> 'w sys \<Rightarrow> (exn + bool) \<times> 'w sys" where
  "deAllocateOrder = deAllocateOrder_loop 61"

fun deleteOrder_loop ::
  "nat \<Rightarrow> config \<Rightarrow> 'w remote \<Rightarrow> string \<Rightarrow> 'w sys \<Rightarrow> (exn + bool) \<times> 'w sys" where
  "deleteOrder_loop 0 cfg env orderName s = (Inr False, s)"
| "deleteOrder_loop (Suc n) cfg env orderName s =
     (case call (run_getOpenPPGPickOrders_specific env orderName) s of
        (dfPPG, s1) \<Rightarrow>
          if dfPPG = [] then (Inr True, s1)
          else (case deleteOrder_itemPathHelper cfg env (MasterorderId (hd dfPPG)) s1 of
                  (Inl e, s2) \<Rightarrow> (Inl e, s2)
                | (Inr deleted, s2) \<Rightarrow> deleteOrder_loop n cfg env orderName s2))"

definition deleteOrder ::
  "config \<Rightarrow> 'w remote \<Rightarrow> string \<Rightarrow> 'w sys \<Rightarrow> (exn + bool) \<times> 'w sys" where
  "deleteOrder = deleteOrder_loop 61"

text \<open>
  \<^verbatim>\<open>_wait_for_order_visible_in_ppg\<close>: poll the snapshot until the order is there or
  the window is over.
\<close>

fun visible_poll :: "nat \<Rightarrow> 'w remote \<Rightarrow> string \<Rightarrow> 'w sys \<Rightarrow> bool \<times> 'w sys" where
  "visible_poll 0 env orderName s = (False, s)"
| "visible_poll (Suc n) env orderName s =
     (case call (run_getOpenPPGPickOrders_specific env orderName) s of
        (dfPPG, s1) \<Rightarrow> if dfPPG \<noteq> [] then (True, s1) else visible_poll n env orderName s1)"

definition wait_for_order_visible_in_ppg ::
  "'w remote \<Rightarrow> string \<Rightarrow> window \<Rightarrow> 'w sys \<Rightarrow> bool \<times> 'w sys" where
  "wait_for_order_visible_in_ppg env orderName win s =
     visible_poll (polls_in_window env win (world s)) env orderName s"

text \<open>
  \<^verbatim>\<open>_wait_for_wolines\<close>: one read, then up to \<open>max_attempts - 1\<close> more while the
  result is empty; the last frame read is returned.
\<close>

fun wolines_poll ::
  "nat \<Rightarrow> 'w remote \<Rightarrow> string \<Rightarrow> ppg_woline list \<Rightarrow> 'w sys \<Rightarrow> ppg_woline list \<times> 'w sys" where
  "wolines_poll 0 env order_id df s = (df, s)"
| "wolines_poll (Suc n) env order_id df s =
     (case call (run_getOpenPPGWOLines_specific env order_id) s of
        (df', s1) \<Rightarrow> if df' \<noteq> [] then (df', s1) else wolines_poll n env order_id df' s1)"

definition wait_for_wolines ::
  "'w remote \<Rightarrow> string \<Rightarrow> int \<Rightarrow> 'w sys \<Rightarrow> ppg_woline list \<times> 'w sys" where
  "wait_for_wolines env order_id max_attempts s =
     (case call (run_getOpenPPGWOLines_specific env order_id) s of
        (df, s1) \<Rightarrow>
          if df \<noteq> [] then (df, s1)
          else wolines_poll (nat (max_attempts - 1)) env order_id df s1)"

text \<open>
  \<^verbatim>\<open>createFullSOPickOrder\<close>. The request is identified by the order name and carries
  the flagged BOM rows (how the payload lines are built from them is not modelled).
  \<^verbatim>\<open>raise_for_status\<close> raises for a status from 400 to 599. On success the body is
  parsed: a body that is not JSON leaves \<^verbatim>\<open>data = {}\<close>; a JSON value that is not an
  object has no \<^verbatim>\<open>keys\<close>, so the logging line raises inside the \<^verbatim>\<open>try\<close> and the
  generic handler runs, as it does for a transport error.
\<close>

definition createFullSOPickOrder ::
  "config \<Rightarrow> 'w remote \<Rightarrow> string \<Rightarrow> bom_row list \<Rightarrow> 'w sys \<Rightarrow> (exn + pyval) \<times> 'w sys" where
  "createFullSOPickOrder cfg env orderNameStr lines s =
     (if \<not> env_ok cfg then (Inl (ValueError require_env_msg), s)
      else
        (case call (post_orders env orderNameStr lines) (emit (CreateSend orderNameStr) s) of
           (x, s1) \<Rightarrow>
             let s2 = emit (CreateAck orderNameStr (map_option status_code x)) s1;
                 generic = (case wait_for_order_visible_in_ppg env orderNameStr CreateGrace s2 of
                              (appeared, s3) \<Rightarrow> (Inr (PBool True), s3))
             in (case x of
                   None \<Rightarrow> generic
                 | Some r \<Rightarrow>
                     if 400 \<le> status_code r \<and> status_code r < 600 then
                       (if status_code r = 409 then (Inr (PBool True), s2)
                        else if status_code r = 504 then
                          (case wait_for_order_visible_in_ppg env orderNameStr CreateGrace s2 of
                             (appeared, s3) \<Rightarrow> (Inr (PBool True), s3))
                        else if status_code r = 500 then (Inr DEFER_CREATE_SENTINEL, s2)
                        else (Inr (PBool False), s2))
                     else
                       (case body r of
                          NotJson \<Rightarrow> (Inr (PDict []), s2)
                        | Json (JObj d) \<Rightarrow> (Inr (PDict d), s2)
                        | Json _ \<Rightarrow> generic))))"

text \<open>
  \<^verbatim>\<open>createOrder\<close>: the pre-check, the filter on the PPG flag, the create, and a
  post-check read whose result only goes to the log.
\<close>

definition createOrder ::
  "config \<Rightarrow> 'w remote \<Rightarrow> string \<Rightarrow> bom_row list \<Rightarrow> 'w sys \<Rightarrow> (exn + pyval) \<times> 'w sys" where
  "createOrder cfg env orderName df_sapBOM s =
     (case call (run_getOpenPPGPickOrders_specific env orderName) s of
        (dfPPG, s0) \<Rightarrow>
          let s1 = emit (PreCreateSnapshot orderName (dfPPG \<noteq> [])) s0 in
          if dfPPG \<noteq> [] then (Inr (PBool True), s1)
          else
            let df_sapBOMFiltered = filter (\<lambda>r. U_PLS_PPG_ITEM r = ''Y'') df_sapBOM in
            if df_sapBOMFiltered = [] then (Inr (PBool False), s1)
            else
              (case createFullSOPickOrder cfg env orderName df_sapBOMFiltered s1 of
                 (Inl e, s2) \<Rightarrow> (Inl e, s2)
               | (Inr created, s2) \<Rightarrow>
                   (case call (run_getOpenPPGPickOrders_specific env orderName) s2 of
                      (dfPPG_after, s3) \<Rightarrow> (Inr created, s3))))"

text \<open>
  \<^verbatim>\<open>createBatch\<close>: up to 61 rounds of reading the batch and, when it is absent,
  posting it.
\<close>

fun createBatch_loop ::
  "nat \<Rightarrow> config \<Rightarrow> 'w remote \<Rightarrow> string \<Rightarrow> 'w sys \<Rightarrow> (exn + bool) \<times> 'w sys" where
  "createBatch_loop 0 cfg env batchName s = (Inr False, s)"
| "createBatch_loop (Suc n) cfg env batchName s =
     (case call (run_getOpenPPGBatches_specific env batchName) s of
        (dfPPG_batch, s1) \<Rightarrow>
          if dfPPG_batch \<noteq> [] then (Inr True, s1)
          else (case createBatch_itemPathHelper cfg env batchName s1 of
                  (Inl e, s2) \<Rightarrow> (Inl e, s2)
                | (Inr x, s2) \<Rightarrow> createBatch_loop n cfg env batchName s2))"

definition createBatch ::
  "config \<Rightarrow> 'w remote \<Rightarrow> string \<Rightarrow> 'w sys \<Rightarrow> (exn + bool) \<times> 'w sys" where
  "createBatch = createBatch_loop 61"

text \<open>
  The \<^verbatim>\<open>while not success and retry_count < 2\<close> loop of \<^verbatim>\<open>addOrderToBatch\<close> for
  the line with index \<open>index\<close>; the result is the final value of \<^verbatim>\<open>success\<close>.
  After the first failed attempt on the first line the work-order lines are read again
  and the first id of the fresh frame, if any, replaces the stale one.
\<close>

function assign_attempts ::
  "config \<Rightarrow> 'w remote \<Rightarrow> string \<Rightarrow> string \<Rightarrow> string \<Rightarrow> nat \<Rightarrow> nat \<Rightarrow> nat \<Rightarrow> string \<Rightarrow> 'w sys
     \<Rightarrow> (exn + bool) \<times> 'w sys" where
  "assign_attempts cfg env orderName order_id batch_id orderRank index retry_count wol_id s =
     (if retry_count < 2 then
        (case update_work_order_line_itempathhelper cfg env wol_id batch_id orderRank s of
           (Inl e, s1) \<Rightarrow> (Inl e, s1)
         | (Inr x, s1) \<Rightarrow>
             let ok = (case x of None \<Rightarrow> False | Some r \<Rightarrow> status_code r = 200);
                 s2 = emit (AssignTry orderName wol_id batch_id orderRank (retry_count + 1) ok) s1
             in if ok then (Inr True, s2)
                else
                  (case (if index = 0 \<and> retry_count = 0 then
                           (case call (run_getOpenPPGWOLines_specific env order_id) s2 of
                              (dfPPG_WOLines_ref, s3) \<Rightarrow>
                                (if dfPPG_WOLines_ref \<noteq> []
                                 then WorkorderlineId (hd dfPPG_WOLines_ref) else wol_id, s3))
                         else (wol_id, s2)) of
                     (wol_id', s3) \<Rightarrow>
                       assign_attempts cfg env orderName order_id batch_id orderRank index
                         (retry_count + 1) wol_id' s3))
      else (Inr False, s))"
  by pat_completeness auto
termination
  by (relation "measure (\<lambda>(cfg, env, orderName, order_id, batch_id, orderRank, index, retry_count, wol_id, s).
        2 - retry_count)") auto

text \<open>
  The \<^verbatim>\<open>for index, row in dfPPG_WOLines.iterrows()\<close> loop: a first line that did not
  succeed returns \<open>False\<close>; a later line that failed is passed over.
\<close>

fun assign_lines ::
  "config \<Rightarrow> 'w remote \<Rightarrow> string \<Rightarrow> string \<Rightarrow> string \<Rightarrow> nat \<Rightarrow> nat \<Rightarrow> ppg_woline list \<Rightarrow> 'w sys
     \<Rightarrow> (exn + bool) \<times> 'w sys" where
  "assign_lines cfg env orderName order_id batch_id orderRank index [] s = (Inr True, s)"
| "assign_lines cfg env orderName order_id batch_id orderRank index (row # rest) s =
     (case assign_attempts cfg env orderName order_id batch_id orderRank index 0
             (WorkorderlineId row) s of
        (Inl e, s1) \<Rightarrow> (Inl e, s1)
      | (Inr success, s1) \<Rightarrow>
          if index = 0 \<and> \<not> success then (Inr False, s1)
          else assign_lines cfg env orderName order_id batch_id orderRank (Suc index) rest s1)"

text \<open>The pre-wait of \<^verbatim>\<open>addOrderToBatch\<close>: read again while the order is missing.\<close>

fun prewait_poll ::
  "nat \<Rightarrow> 'w remote \<Rightarrow> string \<Rightarrow> ppg_order list \<Rightarrow> 'w sys \<Rightarrow> ppg_order list \<times> 'w sys" where
  "prewait_poll 0 env orderName df s = (df, s)"
| "prewait_poll (Suc n) env orderName df s =
     (if df \<noteq> [] then (df, s)
      else (case call (run_getOpenPPGPickOrders_specific env orderName) s of
              (df', s1) \<Rightarrow> prewait_poll n env orderName df' s1))"

definition addOrderToBatch ::
  "config \<Rightarrow> 'w remote \<Rightarrow> string \<Rightarrow> string \<Rightarrow> nat \<Rightarrow> 'w sys \<Rightarrow> (exn + bool) \<times> 'w sys" where
  "addOrderToBatch cfg env orderName batchName orderRank s =
     (case call (run_getOpenPPGPickOrders_specific env orderName) s of
        (df0, s0) \<Rightarrow>
          (case (if df0 = []
                 then prewait_poll (polls_in_window env AddPrewait (world s0)) env orderName df0 s0
                 else (df0, s0)) of
             (dfPPG_order, s1) \<Rightarrow>
               if dfPPG_order = [] then (Inr False, s1)
               else
                 let order_id = MasterorderId (hd dfPPG_order) in
                 (case wait_for_wolines env order_id (WOL_POLL_ATTEMPTS cfg) s1 of
                    (dfPPG_WOLines, s2) \<Rightarrow>
                      if dfPPG_WOLines = [] then (Inr False, s2)
                      else
                        (case createBatch cfg env batchName s2 of
                           (Inl e, s3) \<Rightarrow> (Inl e, s3)
                         | (Inr made, s3) \<Rightarrow>
                             if \<not> made then (Inr False, s3)
                             else
                               (case call (run_getOpenPPGBatches_specific env batchName) s3 of
                                  (dfPPG_batch, s4) \<Rightarrow>
                                    if dfPPG_batch = [] then (Inr False, s4)
                                    else assign_lines cfg env orderName order_id
                                           (WorkorderId (hd dfPPG_batch)) orderRank 0
                                           dfPPG_WOLines s4)))))"

section \<open>The batch orchestrator (thread_b_and_a.py)\<close>

text \<open>
  A dictionary whose iteration order matters is an association list with one entry per
  key. \<open>setdefault_append\<close> is \<^verbatim>\<open>d.setdefault(k, []).append(v)\<close> (also the append
  to a \<^verbatim>\<open>defaultdict(list)\<close>), \<open>entries_of\<close> reads the list of a key.
\<close>

definition setdefault_append ::
  "(string \<times> string list) list \<Rightarrow> string \<Rightarrow> string \<Rightarrow> (string \<times> string list) list" where
  "setdefault_append m k v =
     (if k \<in> fst ` set m
      then map (\<lambda>(k', vs). if k' = k then (k', vs @ [v]) else (k', vs)) m
      else m @ [(k, [v])])"

definition entries_of :: "(string \<times> string list) list \<Rightarrow> string \<Rightarrow> string list" where
  "entries_of m k = (case map_of m k of None \<Rightarrow> [] | Some vs \<Rightarrow> vs)"

text \<open>\<^verbatim>\<open>batch_order_counts.get(batch_name, 0)\<close>.\<close>

definition count_of :: "(string \<rightharpoonup> nat) \<Rightarrow> string \<Rightarrow> nat" where
  "count_of m b = (case m b of None \<Rightarrow> 0 | Some c \<Rightarrow> c)"

text \<open>
  What a worker holds while it processes one batch row: the row, \<^verbatim>\<open>current_rank\<close>,
  the sales orders still to process, \<^verbatim>\<open>allocated_arr\<close>, and its running frames
  \<^verbatim>\<open>df_ok\<close> and \<^verbatim>\<open>df_errors\<close>.
\<close>

record job =
  j_row :: batch_row
  j_rank :: nat
  j_todo :: "string list"
  j_alloc :: "string list"
  j_df_ok :: "out_row list"
  j_df_errors :: "err_row list"

record worker =
  current :: "job option"
  exited :: bool

text \<open>
  The shared state of a run: the system, the rank counters, the two deferred maps, the
  per-thread output and error files with the cache of error frames, the queue and the
  workers (worker \<open>i + 1\<close> is at position \<open>i\<close>). \<open>commits\<close> records, for every
  call of \<^verbatim>\<open>addOrderToBatch\<close> that returned true, the batch, the sales order and the
  rank the call was given.
\<close>

record 'w st =
  sys :: "'w sys"
  batch_order_counts :: "string \<rightharpoonup> nat"
  deferred_map :: "(string \<times> string list) list"
  deferred_create_map :: "(string \<times> string list) list"
  shards :: "nat \<rightharpoonup> out_row list"
  err_files :: "nat \<rightharpoonup> err_row list"
  df_errors_by_thread :: "nat \<rightharpoonup> err_row list"
  queue :: "batch_row list"
  workers :: "worker list"
  commits :: "(string \<times> string \<times> nat) list"

text \<open>
  The body of the \<^verbatim>\<open>try\<close> for one sales order, up to the choice of the branch.
  A frame built from an empty query result has no columns, so selecting a column of an
  empty preloaded frame raises \<^verbatim>\<open>KeyError\<close>.
\<close>

datatype so_outcome = DeferCreate | Added | DeferAdd | CreateFailed | Excepted exn

definition so_try ::
  "config \<Rightarrow> 'w remote \<Rightarrow> bom_row list \<Rightarrow> ppg_order list \<Rightarrow> string \<Rightarrow> nat \<Rightarrow> string \<Rightarrow> 'w sys
     \<Rightarrow> so_outcome \<times> 'w sys" where
  "so_try cfg env df_sapBOM_preloaded df_ppgPickOrders batch_name current_rank soNum s =
     (if df_sapBOM_preloaded = [] then (Excepted (KeyError ''DocNum''), s)
      else
        let df_sap_filtered = filter (\<lambda>r. DocNum r = soNum) df_sapBOM_preloaded in
        if df_ppgPickOrders = [] then (Excepted (KeyError ''MasterorderName''), s)
        else
          let df_ppgFiltered = filter (\<lambda>r. MasterorderName r = soNum) df_ppgPickOrders in
          (case (if df_ppgFiltered \<noteq> [] then
                   (case deAllocateOrder cfg env soNum s of
                      (Inl e, s1) \<Rightarrow> (Inl e, s1)
                    | (Inr deAllocated, s1) \<Rightarrow> deleteOrder cfg env soNum s1)
                 else (Inr True, s)) of
             (Inl e, s2) \<Rightarrow> (Excepted e, s2)
           | (Inr cleaned, s2) \<Rightarrow>
               (case createOrder cfg env soNum df_sap_filtered s2 of
                  (Inl e, s3) \<Rightarrow> (Excepted e, s3)
                | (Inr created, s3) \<Rightarrow>
                    if is_defer_create created then (DeferCreate, s3)
                    else if py_bool created then
                      (case addOrderToBatch cfg env soNum batch_name current_rank s3 of
                         (Inl e, s4) \<Rightarrow> (Excepted e, s4)
                       | (Inr success, s4) \<Rightarrow> (if success then Added else DeferAdd, s4))
                    else (CreateFailed, s3))))"

definition error_row :: "batch_row \<Rightarrow> string \<Rightarrow> string \<Rightarrow> err_row" where
  "error_row row so r =
     \<lparr>PPG_BatchName = PPG_BatchName row, DocNums = DocNums row,
      minDocDueDate = minDocDueDate row, err_soNum = so, err_reason = r\<rparr>"

definition row_out :: "batch_row \<Rightarrow> string list \<Rightarrow> out_row" where
  "row_out row allocated_arr =
     \<lparr>PPG_BatchName = PPG_BatchName row, DocNums = DocNums row,
      minDocDueDate = minDocDueDate row,
      ordersBatched = join_comma_space allocated_arr, soCount = length allocated_arr\<rparr>"

text \<open>
  One iteration of the loop over the sales orders of a row in
  \<^verbatim>\<open>_process_single_batch_row\<close>: the branch taken updates the shared maps and the
  locals, then the row of the batch is upserted into the thread's output file and the
  error file is written when the error frame is not empty.
\<close>

definition process_so ::
  "config \<Rightarrow> 'w remote \<Rightarrow> bom_row list \<Rightarrow> ppg_order list \<Rightarrow> nat \<Rightarrow> job \<Rightarrow> string \<Rightarrow> 'w st
     \<Rightarrow> job \<times> 'w st" where
  "process_so cfg env df_sapBOM_preloaded df_ppgPickOrders thread_id j soNum st =
     (let batch_name = PPG_BatchName (j_row j); current_rank = j_rank j in
      case so_try cfg env df_sapBOM_preloaded df_ppgPickOrders batch_name current_rank soNum
             (sys st) of
        (outcome, s') \<Rightarrow>
          let st1 = st\<lparr>sys := s'\<rparr> in
          (case (case outcome of
                   DeferCreate \<Rightarrow>
                     (j, st1\<lparr>deferred_create_map :=
                               setdefault_append (deferred_create_map st1) batch_name soNum\<rparr>)
                 | Added \<Rightarrow>
                     (let c = (batch_order_counts st1)
                                (batch_name \<mapsto> count_of (batch_order_counts st1) batch_name + 1)
                      in (j\<lparr>j_alloc := j_alloc j @ [soNum], j_rank := count_of c batch_name + 1\<rparr>,
                          st1\<lparr>batch_order_counts := c,
                              commits := commits st1 @ [(batch_name, soNum, current_rank)]\<rparr>))
                 | DeferAdd \<Rightarrow>
                     (j, st1\<lparr>deferred_map := setdefault_append (deferred_map st1) batch_name soNum\<rparr>)
                 | CreateFailed \<Rightarrow>
                     (j\<lparr>j_df_errors := j_df_errors j @ [error_row (j_row j) soNum ''create_failed'']\<rparr>,
                      st1)
                 | Excepted e \<Rightarrow>
                     (j\<lparr>j_df_errors := j_df_errors j
                          @ [error_row (j_row j) soNum (''Exception: '' @ exn_str e)]\<rparr>,
                      st1)) of
             (j2, st2) \<Rightarrow>
               let r = row_out (j_row j2) (j_alloc j2);
                   df_ok = (if j_df_ok j2 = [] then [r]
                            else filter (\<lambda>x. PPG_BatchName x \<noteq> batch_name) (j_df_ok j2) @ [r])
               in (j2\<lparr>j_df_ok := df_ok\<rparr>,
                   st2\<lparr>shards := (shards st2)(thread_id \<mapsto> df_ok),
                       err_files := (if j_df_errors j2 \<noteq> []
                                     then (err_files st2)(thread_id \<mapsto> j_df_errors j2)
                                     else err_files st2)\<rparr>)))"

text \<open>
  The start of \<^verbatim>\<open>_process_single_batch_row\<close>: load the thread's frames, split the
  document numbers, make sure the counter exists and read the next rank.
\<close>

definition start_row :: "nat \<Rightarrow> batch_row \<Rightarrow> 'w st \<Rightarrow> job \<times> 'w st" where
  "start_row thread_id row st =
     (let batch_name = PPG_BatchName row;
          c = (if batch_name \<notin> dom (batch_order_counts st)
               then (batch_order_counts st)(batch_name \<mapsto> 0) else batch_order_counts st)
      in (\<lparr>j_row = row, j_rank = count_of c batch_name + 1,
           j_todo = safe_split_docnums (DocNums row), j_alloc = [],
           j_df_ok = (case shards st thread_id of None \<Rightarrow> [] | Some d \<Rightarrow> d),
           j_df_errors = (case df_errors_by_thread st thread_id of None \<Rightarrow> [] | Some d \<Rightarrow> d)\<rparr>,
          st\<lparr>batch_order_counts := c\<rparr>))"

text \<open>
  The worker pool. A step lets worker \<open>i + 1\<close> do its next action: take a row from the
  queue (or exit when the queue is empty), process the next sales order of its row, or
  finish the row (store the error frame in the cache). A worker touches the shared maps
  at most once per sales order and under the lock or through one dictionary operation,
  so an execution of the pool is a sequence of such steps; the schedule is the list of
  the workers that move.
\<close>

definition pool_step ::
  "config \<Rightarrow> 'w remote \<Rightarrow> bom_row list \<Rightarrow> ppg_order list \<Rightarrow> nat \<Rightarrow> 'w st \<Rightarrow> 'w st" where
  "pool_step cfg env df_sapBOM_all df_ppgPickOrders i st =
     (if i < length (workers st) then
        let w = workers st ! i; thread_id = i + 1 in
        if exited w then st
        else
          (case current w of
             None \<Rightarrow>
               (case queue st of
                  [] \<Rightarrow> st\<lparr>workers := (workers st)[i := w\<lparr>exited := True\<rparr>]\<rparr>
                | row # q \<Rightarrow>
                    (case start_row thread_id row (st\<lparr>queue := q\<rparr>) of
                       (j, st1) \<Rightarrow> st1\<lparr>workers := (workers st1)[i := w\<lparr>current := Some j\<rparr>]\<rparr>))
           | Some j \<Rightarrow>
               (case j_todo j of
                  [] \<Rightarrow>
                    st\<lparr>df_errors_by_thread := (df_errors_by_thread st)(thread_id \<mapsto> j_df_errors j),
                       workers := (workers st)[i := w\<lparr>current := None\<rparr>]\<rparr>
                | soNum # rest \<Rightarrow>
                    (case process_so cfg env df_sapBOM_all df_ppgPickOrders thread_id
                            (j\<lparr>j_todo := rest\<rparr>) soNum st of
                       (j', st1) \<Rightarrow> st1\<lparr>workers := (workers st1)[i := w\<lparr>current := Some j'\<rparr>]\<rparr>)))
      else st)"

definition pool_run ::
  "config \<Rightarrow> 'w remote \<Rightarrow> bom_row list \<Rightarrow> ppg_order list \<Rightarrow> nat list \<Rightarrow> 'w st \<Rightarrow> 'w st" where
  "pool_run cfg env df_sapBOM_all df_ppgPickOrders sched st =
     fold (pool_step cfg env df_sapBOM_all df_ppgPickOrders) sched st"

definition pool_done :: "'w st \<Rightarrow> bool" where
  "pool_done st = list_all exited (workers st)"

text \<open>
  \<^verbatim>\<open>_apply_deferred_successes_to_parquets\<close>: for every output file, for every entry
  of the map, every row of that batch gets the new sales orders appended; when the
  string changed, \<^verbatim>\<open>soCount\<close> is set to the number of non-blank entries.
\<close>

definition merge_row :: "string list \<Rightarrow> out_row \<Rightarrow> out_row" where
  "merge_row added_sos r =
     (let existing_csv = ordersBatched r; new_csv = append_unique existing_csv added_sos in
      if new_csv \<noteq> existing_csv
      then r\<lparr>ordersBatched := new_csv,
             soCount := (if strip new_csv = [] then 0
                         else length (filter (\<lambda>x. strip x \<noteq> []) (split_comma new_csv)))\<rparr>
      else r)"

definition apply_file :: "(string \<times> string list) list \<Rightarrow> out_row list \<Rightarrow> out_row list" where
  "apply_file deferred_success_map df =
     fold (\<lambda>(batch_name, added_sos) d.
             map (\<lambda>r. if PPG_BatchName r = batch_name then merge_row added_sos r else r) d)
          deferred_success_map df"

definition apply_deferred_successes_to_parquets ::
  "(string \<times> string list) list \<Rightarrow> (nat \<rightharpoonup> out_row list) \<Rightarrow> (nat \<rightharpoonup> out_row list)" where
  "apply_deferred_successes_to_parquets deferred_success_map files =
     (if deferred_success_map = [] then files
      else (\<lambda>i. map_option (apply_file deferred_success_map) (files i)))"

text \<open>
  The order of a tail pass: the batch names sorted, and within a batch the sales orders
  as they were queued.
\<close>

definition deferred_entries :: "(string \<times> string list) list \<Rightarrow> (string \<times> string) list" where
  "deferred_entries m =
     concat (map (\<lambda>b. map (Pair b) (entries_of m b)) (sort (remdups (map fst m))))"

text \<open>
  \<^verbatim>\<open>_retry_deferred_tail\<close>. The loop has no handler: an exception of
  \<^verbatim>\<open>addOrderToBatch\<close> ends the pass (and the run) where it is raised.
\<close>

fun retry_deferred_loop ::
  "config \<Rightarrow> 'w remote \<Rightarrow> (string \<times> string) list \<Rightarrow> (string \<times> string list) list \<Rightarrow> 'w st
     \<Rightarrow> exn option \<times> (string \<times> string list) list \<times> 'w st" where
  "retry_deferred_loop cfg env [] deferred_success_map st = (None, deferred_success_map, st)"
| "retry_deferred_loop cfg env ((batch_name, soNum) # rest) deferred_success_map st =
     (case call (run_getOpenPPGPickOrders_specific env soNum) (sys st) of
        (df_ppg, s1) \<Rightarrow>
          if df_ppg = [] then retry_deferred_loop cfg env rest deferred_success_map (st\<lparr>sys := s1\<rparr>)
          else
            let current_rank = count_of (batch_order_counts st) batch_name + 1 in
            (case addOrderToBatch cfg env soNum batch_name current_rank s1 of
               (Inl e, s2) \<Rightarrow> (Some e, deferred_success_map, st\<lparr>sys := s2\<rparr>)
             | (Inr success, s2) \<Rightarrow>
                 if success then
                   retry_deferred_loop cfg env rest
                     (setdefault_append deferred_success_map batch_name soNum)
                     (st\<lparr>sys := s2,
                         batch_order_counts := (batch_order_counts st)
                           (batch_name \<mapsto> count_of (batch_order_counts st) batch_name + 1),
                         commits := commits st @ [(batch_name, soNum, current_rank)]\<rparr>)
                 else retry_deferred_loop cfg env rest deferred_success_map (st\<lparr>sys := s2\<rparr>)))"

definition retry_deferred_tail ::
  "config \<Rightarrow> 'w remote \<Rightarrow> 'w st \<Rightarrow> exn option \<times> 'w st" where
  "retry_deferred_tail cfg env st =
     (if deferred_map st = [] then (None, st)
      else
        (case retry_deferred_loop cfg env (deferred_entries (deferred_map st)) [] st of
           (Some e, deferred_success_map, st1) \<Rightarrow> (Some e, st1)
         | (None, deferred_success_map, st1) \<Rightarrow>
             (None, st1\<lparr>shards :=
                apply_deferred_successes_to_parquets deferred_success_map (shards st1)\<rparr>)))"

text \<open>
  \<^verbatim>\<open>_retry_deferred_create_then_add_tail\<close>. One entry: wait for the order to show
  up; when it did not, create once; add to the batch at the tail rank when created or
  visible. The handler of the entry catches every exception and goes on.
\<close>

definition final_visibility_wait_for_order ::
  "'w remote \<Rightarrow> string \<Rightarrow> 'w sys \<Rightarrow> bool \<times> 'w sys" where
  "final_visibility_wait_for_order env soNum s =
     visible_poll (polls_in_window env FinalWait (world s)) env soNum s"

definition retry_create_entry ::
  "config \<Rightarrow> 'w remote \<Rightarrow> bom_row list \<Rightarrow> string \<times> string
     \<Rightarrow> (string \<times> string list) list \<times> 'w st \<Rightarrow> (string \<times> string list) list \<times> 'w st" where
  "retry_create_entry cfg env df_sapBOM_preloaded entry acc =
     (case (entry, acc) of
        ((batch_name, soNum), (late_success_map, st)) \<Rightarrow>
          (case final_visibility_wait_for_order env soNum (sys st) of
             (became_visible, s1) \<Rightarrow>
               (case (if became_visible then (Inr True, s1)
                      else if df_sapBOM_preloaded = [] then (Inl (KeyError ''DocNum''), s1)
                      else
                        (case createOrder cfg env soNum
                                (filter (\<lambda>r. DocNum r = soNum) df_sapBOM_preloaded) s1 of
                           (Inl e, s2) \<Rightarrow> (Inl e, s2)
                         | (Inr created, s2) \<Rightarrow>
                             (Inr (if is_defer_create created then False else py_bool created),
                              s2))) of
                  (Inl e, s2) \<Rightarrow> (late_success_map, st\<lparr>sys := s2\<rparr>)
                | (Inr created_ok, s2) \<Rightarrow>
                    if created_ok then
                      let current_rank = count_of (batch_order_counts st) batch_name + 1 in
                      (case addOrderToBatch cfg env soNum batch_name current_rank s2 of
                         (Inl e, s3) \<Rightarrow> (late_success_map, st\<lparr>sys := s3\<rparr>)
                       | (Inr success, s3) \<Rightarrow>
                           if success then
                             (setdefault_append late_success_map batch_name soNum,
                              st\<lparr>sys := s3,
                                 batch_order_counts := (batch_order_counts st)
                                   (batch_name \<mapsto> count_of (batch_order_counts st) batch_name + 1),
                                 commits := commits st @ [(batch_name, soNum, current_rank)]\<rparr>)
                           else (late_success_map, st\<lparr>sys := s3\<rparr>))
                    else (late_success_map, st\<lparr>sys := s2\<rparr>))))"

definition retry_deferred_create_then_add_tail ::
  "config \<Rightarrow> 'w remote \<Rightarrow> bom_row list \<Rightarrow> 'w st \<Rightarrow> 'w st" where
  "retry_deferred_create_then_add_tail cfg env df_sapBOM_preloaded st =
     (if deferred_create_map st = [] then st
      else
        (case fold (retry_create_entry cfg env df_sapBOM_preloaded)
                (deferred_entries (deferred_create_map st)) ([], st) of
           (late_success_map, st1) \<Rightarrow>
             st1\<lparr>shards := apply_deferred_successes_to_parquets late_success_map (shards st1)\<rparr>))"

text \<open>
  \<^verbatim>\<open>prepare_batches_for_ppg\<close>: keep the named batches (all of them when no name is
  given) and turn the document numbers into a string.
\<close>

definition prepare_batches_for_ppg :: "string list \<Rightarrow> batches_df \<Rightarrow> batches_df" where
  "prepare_batches_for_ppg batch_names df_batches =
     df_batches\<lparr>df_rows :=
       map (\<lambda>row. row\<lparr>DocNums :=
              (case DocNums row of
                 DocList xs \<Rightarrow> DocStr (join_comma_space xs)
               | DocStr s0 \<Rightarrow> DocStr (filter (\<lambda>c. c \<noteq> CHR ''['' \<and> c \<noteq> CHR '']'') s0))\<rparr>)
           (if batch_names \<noteq> []
            then filter (\<lambda>row. PPG_BatchName row \<in> set batch_names) (df_rows df_batches)
            else df_rows df_batches)\<rparr>"

text \<open>
  The queue order: a stable sort by due date, then batch name, with missing due dates
  last; by batch name alone when the table has no due-date column.
\<close>

definition due_key :: "batch_row \<Rightarrow> nat \<times> int" where
  "due_key row = (case minDocDueDate row of None \<Rightarrow> (1, 0) | Some d \<Rightarrow> (0, d))"

definition df_batches_sorted :: "batches_df \<Rightarrow> batch_row list" where
  "df_batches_sorted df_batches =
     (if has_minDocDueDate df_batches
      then sort_key (\<lambda>row. (due_key row, PPG_BatchName row)) (df_rows df_batches)
      else sort_key PPG_BatchName (df_rows df_batches))"

text \<open>
  The state when the pool is launched: the queue is filled, the shared maps are empty,
  and \<open>n_workers\<close> workers exist, none of which has taken a row yet.
\<close>

definition launch_state :: "'w \<Rightarrow> batch_row list \<Rightarrow> nat \<Rightarrow> 'w st" where
  "launch_state w q n_workers =
     \<lparr>sys = \<lparr>world = w, telem = []\<rparr>, batch_order_counts = Map.empty, deferred_map = [],
      deferred_create_map = [], shards = Map.empty, err_files = Map.empty,
      df_errors_by_thread = Map.empty, queue = q,
      workers = replicate n_workers \<lparr>current = None, exited = False\<rparr>, commits = []\<rparr>"

text \<open>
  \<^verbatim>\<open>run_specificBatches_optimized\<close>. It returns \<^verbatim>\<open>False\<close> when no batch matches.
  \<^verbatim>\<open>ThreadPoolExecutor\<close> raises for a worker count below one. The pool runs the
  schedule; a schedule that leaves a worker running is not a whole execution. After the
  pool the two tail passes run; an exception of the first one ends the run.
\<close>

datatype 'w run_result = NoBatches | Raised exn "'w st option" | Unfinished "'w st" | Completed "'w st"

definition launch ::
  "'w remote \<Rightarrow> string list \<Rightarrow> int \<Rightarrow> batches_df \<Rightarrow> 'w
     \<Rightarrow> (exn + bom_row list \<times> ppg_order list \<times> 'w st) option" where
  "launch env batch_names num_threads df_parquet w0 =
     (let df_batches = prepare_batches_for_ppg batch_names df_parquet in
      if df_rows df_batches = [] then None
      else
        let total_batches = int (length (df_rows df_batches));
            all_docs = concat (map (\<lambda>row. safe_split_docnums (DocNums row)) (df_rows df_batches))
        in (case run_sapBOMQuery env all_docs w0 of
              (df_sapBOM_all, w1) \<Rightarrow>
                (case run_getOpenPPGPickOrders env w1 of
                   (df_ppgPickOrders, w2) \<Rightarrow>
                     let n_workers = min num_threads total_batches in
                     if n_workers \<le> 0
                     then Some (Inl (ValueError ''max_workers must be greater than 0''))
                     else Some (Inr (df_sapBOM_all, df_ppgPickOrders,
                                     launch_state w2 (df_batches_sorted df_batches)
                                       (nat n_workers))))))"

definition run_specificBatches_optimized ::
  "config \<Rightarrow> 'w remote \<Rightarrow> string list \<Rightarrow> int \<Rightarrow> batches_df \<Rightarrow> nat list \<Rightarrow> 'w \<Rightarrow> 'w run_result" where
  "run_specificBatches_optimized cfg env batch_names num_threads df_parquet sched w0 =
     (case launch env batch_names num_threads df_parquet w0 of
        None \<Rightarrow> NoBatches
      | Some (Inl e) \<Rightarrow> Raised e None
      | Some (Inr (df_sapBOM_all, df_ppgPickOrders, st0)) \<Rightarrow>
          let st1 = pool_run cfg env df_sapBOM_all df_ppgPickOrders sched st0 in
          if \<not> pool_done st1 then Unfinished st1
          else
            (case retry_deferred_tail cfg env st1 of
               (Some e, st2) \<Rightarrow> Raised e (Some st2)
             | (None, st2) \<Rightarrow>
                 Completed (retry_deferred_create_then_add_tail cfg env df_sapBOM_all st2)))"


section \<open>Example environments\<close>

text \<open>
  Small remote services on which the theorems below are instantiated. In
  \<open>visible_env\<close> every order is visible in the snapshot and nothing else exists.
\<close>

definition visible_env :: "unit remote" where
  "visible_env =
     \<lparr>run_sapBOMQuery = (\<lambda>docs w. ([], w)),
      run_getOpenPPGPickOrders = (\<lambda>w. ([], w)),
      run_getOpenPPGPickOrders_specific =
        (\<lambda>n w. ([\<lparr>MasterorderId = ''1'', MasterorderName = n, OrderstatusType = 0\<rparr>], w)),
      run_getOpenPPGBatches_specific = (\<lambda>b w. ([], w)),
      run_getOpenPPGWOLines_specific = (\<lambda>i w. ([], w)),
      post_orders = (\<lambda>n ls w. (None, w)),
      put_work_order_line = (\<lambda>l b r w. (None, w)),
      post_batches = (\<lambda>b w. (None, w)),
      put_orders_deallocate = (\<lambda>i w. (None, w)),
      delete_orders = (\<lambda>i w. (None, w)),
      polls_in_window = (\<lambda>win w. 0)\<rparr>"

definition cfg_ok :: config where
  "cfg_ok = \<lparr>env_ok = True, WOL_POLL_ATTEMPTS = 3\<rparr>"


text \<open>
  What \<open>apply_file\<close> does to a single row: the entries of the map are visited in
  order and each one whose batch name is the row's merges its sales orders.
\<close>

definition apply_row :: "(string \<times> string list) list \<Rightarrow> out_row \<Rightarrow> out_row" where
  "apply_row deferred_success_map r =
     fold (\<lambda>(batch_name, added_sos) x.
             if PPG_BatchName x = batch_name then merge_row added_sos x else x)
          deferred_success_map r"


text \<open>A batch table with a due-date column: B2 without a due date, then B1.\<close>

definition two_batches :: batches_df where
  "two_batches =
     \<lparr>has_minDocDueDate = True,
      df_rows = [\<lparr>PPG_BatchName = ''B2'', DocNums = DocStr ''SO3'', minDocDueDate = None\<rparr>,
                 \<lparr>PPG_BatchName = ''B1'', DocNums = DocStr ''SO1, SO2'', minDocDueDate = Some 7\<rparr>]\<rparr>"

definition failing_env :: "unit remote" where
  "failing_env =
     \<lparr>run_sapBOMQuery = (\<lambda>docs w. ([], w)),
      run_getOpenPPGPickOrders = (\<lambda>w. ([], w)),
      run_getOpenPPGPickOrders_specific =
        (\<lambda>n w. ([\<lparr>MasterorderId = ''7'', MasterorderName = n, OrderstatusType = 0\<rparr>], w)),
      run_getOpenPPGBatches_specific = (\<lambda>b w. ([\<lparr>WorkorderId = ''9'', WorkorderName = b\<rparr>], w)),
      run_getOpenPPGWOLines_specific =
        (\<lambda>i w. ([\<lparr>WorkorderlineId = ''L1'', MasterorderlineId = ''M1'', wol_MasterorderId = i\<rparr>], w)),
      post_orders = (\<lambda>n ls w. (None, w)),
      put_work_order_line = (\<lambda>l b r w. (Some (Response 500 NotJson), w)),
      post_batches = (\<lambda>b w. (None, w)),
      put_orders_deallocate = (\<lambda>i w. (None, w)),
      delete_orders = (\<lambda>i w. (None, w)),
      polls_in_window = (\<lambda>win w. 0)\<rparr>"

definition error500_env :: "unit remote" where
  "error500_env =
     \<lparr>run_sapBOMQuery = (\<lambda>docs w. ([], w)),
      run_getOpenPPGPickOrders = (\<lambda>w. ([], w)),
      run_getOpenPPGPickOrders_specific = (\<lambda>n w. ([], w)),
      run_getOpenPPGBatches_specific = (\<lambda>b w. ([], w)),
      run_getOpenPPGWOLines_specific = (\<lambda>i w. ([], w)),
      post_orders = (\<lambda>n ls w. (Some (Response 500 NotJson), w)),
      put_work_order_line = (\<lambda>l b r w. (None, w)),
      post_batches = (\<lambda>b w. (None, w)),
      put_orders_deallocate = (\<lambda>i w. (None, w)),
      delete_orders = (\<lambda>i w. (None, w)),
      polls_in_window = (\<lambda>win w. 0)\<rparr>"

definition created_env :: "unit remote" where
  "created_env =
     \<lparr>run_sapBOMQuery = (\<lambda>docs w. ([], w)),
      run_getOpenPPGPickOrders = (\<lambda>w. ([], w)),
      run_getOpenPPGPickOrders_specific = (\<lambda>n w. ([], w)),
      run_getOpenPPGBatches_specific = (\<lambda>b w. ([], w)),
      run_getOpenPPGWOLines_specific = (\<lambda>i w. ([], w)),
      post_orders = (\<lambda>n ls w. (Some (Response 201 NotJson), w)),
      put_work_order_line = (\<lambda>l b r w. (None, w)),
      post_batches = (\<lambda>b w. (None, w)),
      put_orders_deallocate = (\<lambda>i w. (None, w)),
      delete_orders = (\<lambda>i w. (None, w)),
      polls_in_window = (\<lambda>win w. 0)\<rparr>"

definition bom3_unflagged :: "bom_row list" where
  "bom3_unflagged = [\<lparr>DocNum = ''SO3'', LineNum = 0, ItemCode = ''I'', U_PLS_PPG_ITEM = ''N''\<rparr>]"

definition bom3 :: "bom_row list" where
  "bom3 = [\<lparr>DocNum = ''SO3'', LineNum = 0, ItemCode = ''I'', U_PLS_PPG_ITEM = ''Y''\<rparr>]"

definition snap_other :: "ppg_order list" where
  "snap_other = [\<lparr>MasterorderId = ''0'', MasterorderName = ''X'', OrderstatusType = 0\<rparr>]"

definition row3 :: batch_row where
  "row3 = \<lparr>PPG_BatchName = ''B1'', DocNums = DocStr ''SO3'', minDocDueDate = None\<rparr>"

definition job3 :: job where
  "job3 = \<lparr>j_row = row3, j_rank = 1, j_todo = [], j_alloc = [], j_df_ok = [], j_df_errors = []\<rparr>"



definition df3 :: batches_df where
  "df3 = \<lparr>has_minDocDueDate = False, df_rows = [row3]\<rparr>"


text \<open>
  A service whose create request always answers HTTP 500 and on which no order ever
  becomes visible, with the preloaded frames of \<open>stuck_env\<close>.
\<close>

definition server_error_env :: "unit remote" where
  "server_error_env =
     \<lparr>run_sapBOMQuery = (\<lambda>docs w. (bom3, w)),
      run_getOpenPPGPickOrders = (\<lambda>w. (snap_other, w)),
      run_getOpenPPGPickOrders_specific = (\<lambda>n w. ([], w)),
      run_getOpenPPGBatches_specific = (\<lambda>b w. ([], w)),
      run_getOpenPPGWOLines_specific = (\<lambda>i w. ([], w)),
      post_orders = (\<lambda>n ls w. (Some (Response 500 NotJson), w)),
      put_work_order_line = (\<lambda>l b r w. (None, w)),
      post_batches = (\<lambda>b w. (None, w)),
      put_orders_deallocate = (\<lambda>i w. (None, w)),
      delete_orders = (\<lambda>i w. (None, w)),
      polls_in_window = (\<lambda>win w. 0)\<rparr>"


text \<open>
  A service on which every order, batch and line is visible and every assignment request
  succeeds; a batch table with one batch of two sales orders; and a batch table in which
  two rows carry the same batch name.
\<close>

definition success_env :: "unit remote" where
  "success_env =
     \<lparr>run_sapBOMQuery = (\<lambda>docs w. (bom3, w)),
      run_getOpenPPGPickOrders = (\<lambda>w. (snap_other, w)),
      run_getOpenPPGPickOrders_specific =
        (\<lambda>n w. ([\<lparr>MasterorderId = ''7'', MasterorderName = n, OrderstatusType = 0\<rparr>], w)),
      run_getOpenPPGBatches_specific = (\<lambda>b w. ([\<lparr>WorkorderId = ''9'', WorkorderName = b\<rparr>], w)),
      run_getOpenPPGWOLines_specific =
        (\<lambda>i w. ([\<lparr>WorkorderlineId = ''L1'', MasterorderlineId = ''M1'', wol_MasterorderId = i\<rparr>], w)),
      post_orders = (\<lambda>n ls w. (None, w)),
      put_work_order_line = (\<lambda>l b r w. (Some (Response 200 NotJson), w)),
      post_batches = (\<lambda>b w. (None, w)),
      put_orders_deallocate = (\<lambda>i w. (None, w)),
      delete_orders = (\<lambda>i w. (None, w)),
      polls_in_window = (\<lambda>win w. 0)\<rparr>"

definition df_one_batch :: batches_df where
  "df_one_batch =
     \<lparr>has_minDocDueDate = False,
      df_rows = [\<lparr>PPG_BatchName = ''B1'', DocNums = DocStr ''SO1, SO2'', minDocDueDate = None\<rparr>]\<rparr>"

definition df_same_name :: batches_df where
  "df_same_name =
     \<lparr>has_minDocDueDate = False,
      df_rows = [\<lparr>PPG_BatchName = ''B1'', DocNums = DocStr ''SO1'', minDocDueDate = None\<rparr>,
                 \<lparr>PPG_BatchName = ''B1'', DocNums = DocStr ''SO2'', minDocDueDate = None\<rparr>]\<rparr>"


text \<open>A batch table whose only row lists the sales order \<open>SO3\<close> twice.\<close>

definition df_listed_twice :: batches_df where
  "df_listed_twice =
     \<lparr>has_minDocDueDate = False,
      df_rows = [\<lparr>PPG_BatchName = ''B1'', DocNums = DocStr ''SO3, SO3'', minDocDueDate = None\<rparr>]\<rparr>"


section \<open>Reading the telemetry\<close>

text \<open>
  The value \<^verbatim>\<open>createFullSOPickOrder\<close> returns, as a function of what the create
  request answered.
\<close>

definition create_result :: "response option \<Rightarrow> pyval" where
  "create_result x =
     (case x of
        None \<Rightarrow> PBool True
      | Some r \<Rightarrow>
          if 400 \<le> status_code r \<and> status_code r < 600 then
            (if status_code r = 409 then PBool True
             else if status_code r = 504 then PBool True
             else if status_code r = 500 then DEFER_CREATE_SENTINEL
             else PBool False)
          else (case body r of
                  NotJson \<Rightarrow> PDict []
                | Json (JObj d) \<Rightarrow> PDict d
                | Json _ \<Rightarrow> PBool True))"

fun is_try :: "event \<Rightarrow> bool" where
  "is_try (AssignTry so wol bid rank attempt ok) = True"
| "is_try _ = False"

text \<open>
  The \<^verbatim>\<open>batch.assign.try\<close> events one call of \<^verbatim>\<open>addOrderToBatch\<close> can write,
  by its result: none when it raises; none, or two failed attempts on the first line,
  when it returns \<open>False\<close>; a successful first or second attempt on the first line,
  followed by the attempts on the later lines, when it returns \<open>True\<close>.
\<close>

definition assign_events :: "string \<Rightarrow> nat \<Rightarrow> exn + bool \<Rightarrow> event list \<Rightarrow> bool" where
  "assign_events so rank res evs =
     (case res of
        Inl e \<Rightarrow> evs = []
      | Inr ok \<Rightarrow>
          if ok then
            (\<exists>w w' b rest.
               (evs = AssignTry so w b rank 1 True # rest \<or>
                evs = AssignTry so w b rank 1 False # AssignTry so w' b rank 2 True # rest) \<and>
               list_all is_try rest)
          else
            (evs = [] \<or>
             (\<exists>w w' b. evs = [AssignTry so w b rank 1 False, AssignTry so w' b rank 2 False])))"

definition add_outcome :: "string \<Rightarrow> nat \<Rightarrow> so_outcome \<Rightarrow> event list \<Rightarrow> bool" where
  "add_outcome so rank out evs =
     (\<exists>res. assign_events so rank res evs \<and>
            out = (case res of Inl e \<Rightarrow> Excepted e | Inr ok \<Rightarrow> if ok then Added else DeferAdd))"

text \<open>
  The events one sales order can write in the main pass, by the branch taken:
  nothing before an exception of the clean-up or of a column access; the snapshot with
  the order visible, then the assignment; the snapshot without the order and nothing
  else (no flagged BOM row, or the configuration missing); or the snapshot, the create
  request and its acknowledgement, then what the returned value decides.
\<close>

definition so_events ::
  "config \<Rightarrow> bom_row list \<Rightarrow> string \<Rightarrow> nat \<Rightarrow> so_outcome \<Rightarrow> event list \<Rightarrow> bool" where
  "so_events cfg df_sap_filtered so rank out evs =
     (let flagged = filter (\<lambda>r. U_PLS_PPG_ITEM r = ''Y'') df_sap_filtered in
      (\<exists>e. out = Excepted e \<and> evs = []) \<or>
      (\<exists>ae. evs = PreCreateSnapshot so True # ae \<and> add_outcome so rank out ae) \<or>
      (evs = [PreCreateSnapshot so False] \<and>
         (out = CreateFailed \<and> flagged = [] \<or>
          out = Excepted (ValueError require_env_msg) \<and> flagged \<noteq> [] \<and> \<not> env_ok cfg)) \<or>
      (\<exists>x ae. evs = PreCreateSnapshot so False # CreateSend so
                     # CreateAck so (map_option status_code x) # ae \<and>
              flagged \<noteq> [] \<and> env_ok cfg \<and>
              (if is_defer_create (create_result x) then out = DeferCreate \<and> ae = []
               else if py_bool (create_result x) then add_outcome so rank out ae
               else out = CreateFailed \<and> ae = [])))"

text \<open>
  Counting: the create requests sent for a sales order, the times the order is listed in
  a batch table, its entries in a deferred map as a tail pass walks it, and the times it is
  still to be processed by the pool. \<open>sends_inv\<close> is the invariant of the pool for one sales
  order.
\<close>

definition create_sends :: "string \<Rightarrow> event list \<Rightarrow> nat" where
  "create_sends so evs = count_list evs (CreateSend so)"

definition occurrences :: "string \<Rightarrow> batch_row list \<Rightarrow> nat" where
  "occurrences so rows =
     sum_list (map (\<lambda>row. count_list (safe_split_docnums (DocNums row)) so) rows)"

definition deferred_count :: "string \<Rightarrow> (string \<times> string list) list \<Rightarrow> nat" where
  "deferred_count so m = count_list (map snd (deferred_entries m)) so"

definition todo_count :: "string \<Rightarrow> worker \<Rightarrow> nat" where
  "todo_count so w = (case current w of None \<Rightarrow> 0 | Some j \<Rightarrow> count_list (j_todo j) so)"

definition pending :: "string \<Rightarrow> 'w st \<Rightarrow> nat" where
  "pending so st = sum_list (map (todo_count so) (workers st)) + occurrences so (queue st)"

definition sends_inv :: "string \<Rightarrow> nat \<Rightarrow> 'w st \<Rightarrow> bool" where
  "sends_inv so n st =
     (create_sends so (telem (sys st)) + pending so st \<le> n \<and>
      deferred_count so (deferred_create_map st) \<le> create_sends so (telem (sys st)) \<and>
      distinct (map fst (deferred_create_map st)))"

text \<open>
  The ranks committed for a batch, in the order of the commits; whether a worker holds a
  row of the batch; the density of the ranks of a batch against its counter; and the
  invariant of the pool for one batch: the ranks are dense, at most one row of the batch is
  held or queued, and a worker that holds it has cached the next rank.
\<close>

definition ranks_of :: "string \<Rightarrow> (string \<times> string \<times> nat) list \<Rightarrow> nat list" where
  "ranks_of b cs = map (\<lambda>c. snd (snd c)) (filter (\<lambda>c. fst c = b) cs)"

definition holds :: "string \<Rightarrow> worker \<Rightarrow> nat" where
  "holds b w =
     (case current w of None \<Rightarrow> 0 | Some j \<Rightarrow> if PPG_BatchName (j_row j) = b then 1 else 0)"

definition rank_dense :: "string \<Rightarrow> 'w st \<Rightarrow> bool" where
  "rank_dense b st =
     (ranks_of b (commits st) = [1 ..< Suc (count_of (batch_order_counts st) b)])"

definition rank_inv :: "string \<Rightarrow> 'w st \<Rightarrow> bool" where
  "rank_inv b st =
     (rank_dense b st \<and>
      sum_list (map (holds b) (workers st)) + count_list (map PPG_BatchName (queue st)) b \<le> 1 \<and>
      (\<forall>k < length (workers st). \<forall>j. current (workers st ! k) = Some j \<longrightarrow>
           PPG_BatchName (j_row j) = b \<longrightarrow> j_rank j = count_of (batch_order_counts st) b + 1))"

section \<open>Basic facts\<close>

lemma call_simps: "call f s = (fst (f (world s)), s\<lparr>world := snd (f (world s))\<rparr>)"
  by (simp add: call_def split: prod.splits)

section \<open>An order that is already visible\<close>

text \<open>
  Claim C9. When the snapshot read at the start of \<^verbatim>\<open>createOrder\<close> finds the order,
  \<^verbatim>\<open>createOrder\<close> returns \<open>True\<close> (treated as created), the only remote call it made
  is that one read, and the only telemetry it wrote is the pre-create snapshot: no
  create request is sent and no status of a create is ever classified.
\<close>

theorem createOrder_already_visible:
  assumes "fst (run_getOpenPPGPickOrders_specific env orderName (world s)) \<noteq> []"
  shows "createOrder cfg env orderName df_sapBOM s =
           (Inr (PBool True),
            \<lparr>world = snd (run_getOpenPPGPickOrders_specific env orderName (world s)),
             telem = telem s @ [PreCreateSnapshot orderName True]\<rparr>)"
  using assms by (simp add: createOrder_def call_simps emit_def)

theorem createOrder_already_visible_witness:
  "fst (run_getOpenPPGPickOrders_specific visible_env ''SO1'' ()) \<noteq> [] \<and>
   createOrder cfg_ok visible_env ''SO1'' [] \<lparr>world = (), telem = []\<rparr> =
     (Inr (PBool True), \<lparr>world = (), telem = [PreCreateSnapshot ''SO1'' True]\<rparr>)"
  using createOrder_already_visible [of visible_env "''SO1''" "\<lparr>world = (), telem = []\<rparr>"
           cfg_ok "[]"]
  by (simp add: visible_env_def)

section \<open>Strings and the comma-joined column\<close>



















lemma length_append_new: "length e \<le> length (append_new e xs)"
proof (induction xs arbitrary: e)
  case Nil then show ?case by simp
next
  case (Cons x xs)
  show ?case using Cons[of "e @ [x]"] Cons[of e] by auto
qed



lemma PPG_BatchName_merge_row [simp]: "PPG_BatchName (merge_row sos r) = PPG_BatchName r"
  by (simp add: merge_row_def Let_def)








lemma apply_row_snoc:
  "apply_row (m @ [(b, sos)]) r =
     (if PPG_BatchName (apply_row m r) = b then merge_row sos (apply_row m r) else apply_row m r)"
  by (simp add: apply_row_def)

lemma apply_row_Nil [simp]: "apply_row [] r = r"
  by (simp add: apply_row_def)

lemma PPG_BatchName_apply_row [simp]: "PPG_BatchName (apply_row m r) = PPG_BatchName r"
proof (induction m rule: rev_induct)
  case Nil
  then show ?case by simp
next
  case (snoc e m)
  then show ?case by (cases e) (simp add: apply_row_snoc)
qed














section \<open>Merging deferred successes into the shards\<close>



section \<open>The queue and the workers at launch\<close>

lemma launch_state_simps [simp]:
  "queue (launch_state w q n) = q"
  "workers (launch_state w q n) = replicate n \<lparr>current = None, exited = False\<rparr>"
  "commits (launch_state w q n) = []"
  "batch_order_counts (launch_state w q n) = Map.empty"
  "deferred_map (launch_state w q n) = []"
  "deferred_create_map (launch_state w q n) = []"
  "sys (launch_state w q n) = \<lparr>world = w, telem = []\<rparr>"
  "shards (launch_state w q n) = Map.empty"
  "err_files (launch_state w q n) = Map.empty"
  "df_errors_by_thread (launch_state w q n) = Map.empty"
  by (simp_all add: launch_state_def)

lemma launch_Some:
  assumes "1 \<le> num_threads" and "df_rows (prepare_batches_for_ppg batch_names df_parquet) \<noteq> []"
  shows "\<exists>bom snap w.
           launch env batch_names num_threads df_parquet w0 =
             Some (Inr (bom, snap,
                        launch_state w (df_batches_sorted (prepare_batches_for_ppg batch_names df_parquet))
                          (nat (min num_threads
                                  (int (length (df_rows (prepare_batches_for_ppg batch_names df_parquet))))))))"
proof -
  have "0 < int (length (df_rows (prepare_batches_for_ppg batch_names df_parquet)))"
    using assms(2) by simp
  then have "\<not> min num_threads (int (length (df_rows (prepare_batches_for_ppg batch_names df_parquet)))) \<le> 0"
    using assms(1) by linarith
  then show ?thesis using assms(2)
    by (auto simp add: launch_def Let_def split: prod.splits)
qed

text \<open>
  Claim C8. For a worker count of at least one and a batch table that is not empty, the
  run reaches the launch of the pool, and in the state at launch: the queue holds
  exactly the batch rows; with a due-date column it is sorted by due date and then
  batch name (missing due dates last) and rows with the same key keep their order;
  without the column it is sorted by batch name, again stably; the number of workers
  is the minimum of the configured count and the number of rows; and no worker has
  taken a row, committed a rank or sent a request yet.
\<close>

theorem launch_queue_and_workers:
  assumes "1 \<le> num_threads"
    and "df_rows (prepare_batches_for_ppg batch_names df_parquet) \<noteq> []"
  shows "\<exists>bom snap st.
           launch env batch_names num_threads df_parquet w0 = Some (Inr (bom, snap, st)) \<and>
           (let df = prepare_batches_for_ppg batch_names df_parquet;
                key = (\<lambda>row. (due_key row, PPG_BatchName row))
            in mset (queue st) = mset (df_rows df) \<and>
               (has_minDocDueDate df \<longrightarrow>
                  sorted (map key (queue st)) \<and>
                  (\<forall>k. filter (\<lambda>row. key row = k) (queue st) = filter (\<lambda>row. key row = k) (df_rows df))) \<and>
               (\<not> has_minDocDueDate df \<longrightarrow>
                  sorted (map PPG_BatchName (queue st)) \<and>
                  (\<forall>k. filter (\<lambda>row. PPG_BatchName row = k) (queue st)
                        = filter (\<lambda>row. PPG_BatchName row = k) (df_rows df))) \<and>
               int (length (workers st)) = min num_threads (int (length (df_rows df))) \<and>
               (\<forall>w\<in>set (workers st). current w = None \<and> \<not> exited w) \<and>
               commits st = [] \<and> telem (sys st) = [])"
proof -
  let ?df = "prepare_batches_for_ppg batch_names df_parquet"
  from launch_Some[OF assms, of env w0] obtain bom snap w where
    l: "launch env batch_names num_threads df_parquet w0 =
          Some (Inr (bom, snap, launch_state w (df_batches_sorted ?df)
                 (nat (min num_threads (int (length (df_rows ?df)))))))" by blast
  have pos: "0 \<le> min num_threads (int (length (df_rows ?df)))" using assms(1) by simp
  let ?key = "\<lambda>row. (due_key row, PPG_BatchName row)"
  let ?st = "launch_state w (df_batches_sorted ?df) (nat (min num_threads (int (length (df_rows ?df)))))"
  have perm: "mset (queue ?st) = mset (df_rows ?df)"
    by (simp add: df_batches_sorted_def)
  have due: "sorted (map ?key (queue ?st)) \<and>
             (\<forall>k. filter (\<lambda>row. ?key row = k) (queue ?st) = filter (\<lambda>row. ?key row = k) (df_rows ?df))"
    if "has_minDocDueDate ?df"
    using that sort_key_stable[of ?key _ "df_rows ?df"] by (simp add: df_batches_sorted_def)
  have nodue: "sorted (map PPG_BatchName (queue ?st)) \<and>
             (\<forall>k. filter (\<lambda>row. PPG_BatchName row = k) (queue ?st)
                   = filter (\<lambda>row. PPG_BatchName row = k) (df_rows ?df))"
    if "\<not> has_minDocDueDate ?df"
    using that sort_key_stable[of PPG_BatchName _ "df_rows ?df"] by (simp add: df_batches_sorted_def)
  have nw: "int (length (workers ?st)) = min num_threads (int (length (df_rows ?df)))"
    using pos by simp
  have idle: "\<forall>w\<in>set (workers ?st). current w = None \<and> \<not> exited w" by simp
  have fresh: "commits ?st = [] \<and> telem (sys ?st) = []" by simp
  show ?thesis
    unfolding Let_def using l perm due nodue nw idle fresh by blast
qed

theorem launch_queue_and_workers_witness:
  "(1::int) \<le> 5 \<and> df_rows (prepare_batches_for_ppg [] two_batches) \<noteq> [] \<and>
   (\<exists>bom snap st.
      launch visible_env [] 5 two_batches () = Some (Inr (bom, snap, st)) \<and>
      map PPG_BatchName (queue st) = [''B1'', ''B2''] \<and> length (workers st) = 2)"
proof -
  have h1: "(1::int) \<le> 5" by simp
  have h2: "df_rows (prepare_batches_for_ppg [] two_batches) \<noteq> []"
    by (simp add: prepare_batches_for_ppg_def two_batches_def)
  from launch_queue_and_workers[OF h1 h2, of visible_env "()"] obtain bom snap st where
    l: "launch visible_env [] 5 two_batches () = Some (Inr (bom, snap, st))"
    and w: "int (length (workers st)) = min 5 (int (length (df_rows (prepare_batches_for_ppg [] two_batches))))"
    and s: "has_minDocDueDate (prepare_batches_for_ppg [] two_batches) \<longrightarrow>
              sorted (map (\<lambda>row. (due_key row, PPG_BatchName row)) (queue st))"
    and p: "mset (queue st) = mset (df_rows (prepare_batches_for_ppg [] two_batches))"
    unfolding Let_def by blast
  have len: "length (workers st) = 2"
    using w by (simp add: prepare_batches_for_ppg_def two_batches_def)
  have q: "queue st = df_batches_sorted (prepare_batches_for_ppg [] two_batches)"
    using l by (auto simp add: launch_def Let_def visible_env_def prepare_batches_for_ppg_def two_batches_def split: prod.splits if_splits) 
  have m: "map PPG_BatchName (queue st) = [''B1'', ''B2'']"
    unfolding q by (simp add: df_batches_sorted_def prepare_batches_for_ppg_def two_batches_def due_key_def)
  show ?thesis
  proof (intro conjI exI)
    show "(1::int) \<le> 5" by (rule h1)
    show "df_rows (prepare_batches_for_ppg [] two_batches) \<noteq> []" by (rule h2)
    show "launch visible_env [] 5 two_batches () = Some (Inr (bom, snap, st))" by (rule l)
    show "map PPG_BatchName (queue st) = [''B1'', ''B2'']" by (rule m)
    show "length (workers st) = 2" by (rule len)
  qed
qed

section \<open>What the lifecycle functions write\<close>

declare assign_attempts.simps [simp del]

lemma telem_world_update [simp]: "telem (s\<lparr>world := w\<rparr>) = telem s"
  by simp

lemma telem_call: "telem (snd (call f s)) = telem s"
  by (simp add: call_simps)

lemma telem_emit: "telem (emit e s) = telem s @ [e]"
  by (simp add: emit_def)

lemma visible_poll_telem: "telem (snd (visible_poll n env name s)) = telem s"
  by (induction n arbitrary: s) (simp_all add: call_simps)

lemma wait_for_order_visible_telem:
  "telem (snd (wait_for_order_visible_in_ppg env name win s)) = telem s"
  by (simp add: wait_for_order_visible_in_ppg_def visible_poll_telem)

lemma wolines_poll_telem: "telem (snd (wolines_poll n env oid df s)) = telem s"
  by (induction n arbitrary: s df) (simp_all add: call_simps)

lemma wait_for_wolines_telem: "telem (snd (wait_for_wolines env oid k s)) = telem s"
  by (simp add: wait_for_wolines_def call_simps wolines_poll_telem)

lemma prewait_poll_telem: "telem (snd (prewait_poll n env name df s)) = telem s"
  by (induction n arbitrary: s df) (simp_all add: call_simps)

lemma deAllocateOrder_loop_telem: "telem (snd (deAllocateOrder_loop n cfg env name s)) = telem s"
  by (induction n arbitrary: s)
     (simp_all add: call_simps deAllocateOrder_itemPathHelper_def)

lemma deleteOrder_loop_telem: "telem (snd (deleteOrder_loop n cfg env name s)) = telem s"
  by (induction n arbitrary: s)
     (simp_all add: call_simps deleteOrder_itemPathHelper_def)

lemma createBatch_loop_telem: "telem (snd (createBatch_loop n cfg env name s)) = telem s"
  by (induction n arbitrary: s)
     (simp_all add: call_simps createBatch_itemPathHelper_def)


lemma createFullSOPickOrder_fst:
  "fst (createFullSOPickOrder cfg env n lines s) =
     (if env_ok cfg then Inr (create_result (fst (post_orders env n lines (world s))))
      else Inl (ValueError require_env_msg))"
  by (simp add: createFullSOPickOrder_def create_result_def call_simps emit_def Let_def
        case_prod_beta split: option.splits body.splits jv.splits)

lemma createFullSOPickOrder_telem:
  "telem (snd (createFullSOPickOrder cfg env n lines s)) =
     (if env_ok cfg
      then telem s @ [CreateSend n, CreateAck n (map_option status_code (fst (post_orders env n lines (world s))))]
      else telem s)"
  by (simp add: createFullSOPickOrder_def call_simps emit_def Let_def case_prod_beta
        wait_for_order_visible_telem
        split: option.splits body.splits jv.splits)


lemma createOrder_fst:
  "fst (createOrder cfg env n bom s) =
     (if fst (run_getOpenPPGPickOrders_specific env n (world s)) \<noteq> [] then Inr (PBool True)
      else if filter (\<lambda>r. U_PLS_PPG_ITEM r = ''Y'') bom = [] then Inr (PBool False)
      else if env_ok cfg then
        Inr (create_result
               (fst (post_orders env n (filter (\<lambda>r. U_PLS_PPG_ITEM r = ''Y'') bom)
                       (snd (run_getOpenPPGPickOrders_specific env n (world s))))))
      else Inl (ValueError require_env_msg))"
  by (simp add: createOrder_def call_simps emit_def Let_def case_prod_beta
        createFullSOPickOrder_fst split: sum.splits)

lemma createOrder_telem:
  "telem (snd (createOrder cfg env n bom s)) =
     telem s @
     (if fst (run_getOpenPPGPickOrders_specific env n (world s)) \<noteq> []
      then [PreCreateSnapshot n True]
      else if filter (\<lambda>r. U_PLS_PPG_ITEM r = ''Y'') bom = [] \<or> \<not> env_ok cfg
      then [PreCreateSnapshot n False]
      else [PreCreateSnapshot n False, CreateSend n,
            CreateAck n (map_option status_code
              (fst (post_orders env n (filter (\<lambda>r. U_PLS_PPG_ITEM r = ''Y'') bom)
                      (snd (run_getOpenPPGPickOrders_specific env n (world s))))))])"
  by (simp add: createOrder_def call_simps emit_def Let_def case_prod_beta
        createFullSOPickOrder_fst createFullSOPickOrder_telem split: sum.splits)

lemma update_wol_eq:
  "update_work_order_line_itempathhelper cfg env w b r s =
     (if \<not> env_ok cfg then (Inl (ValueError require_env_msg), s)
      else (Inr (fst (put_work_order_line env w b r (world s))),
            s\<lparr>world := snd (put_work_order_line env w b r (world s))\<rparr>))"
  by (simp add: update_work_order_line_itempathhelper_def call_simps)

lemma assign_attempts_done:
  "\<not> retry_count < 2 \<Longrightarrow> assign_attempts cfg env so oid b r idx retry_count w s = (Inr False, s)"
  by (subst assign_attempts.simps) simp

lemma assign_attempts_raise:
  "\<not> env_ok cfg \<Longrightarrow> retry_count < 2 \<Longrightarrow>
     assign_attempts cfg env so oid b r idx retry_count w s = (Inl (ValueError require_env_msg), s)"
  by (subst assign_attempts.simps) (simp add: update_wol_eq)

lemma assign_attempts_second:
  assumes "env_ok cfg"
  shows "\<exists>ok s'. assign_attempts cfg env so oid b r idx (Suc 0) w s = (Inr ok, s') \<and>
            telem s' = telem s @ [AssignTry so w b r 2 ok]"
  using assms
  by (subst assign_attempts.simps)
     (auto simp add: update_wol_eq emit_def Let_def assign_attempts_done numeral_2_eq_2)

lemma assign_attempts_first:
  assumes "env_ok cfg"
  shows "\<exists>ok s'. assign_attempts cfg env so oid b r idx 0 w s = (Inr ok, s') \<and>
           (telem s' = telem s @ [AssignTry so w b r 1 True] \<and> ok \<or>
            (\<exists>w'. telem s' = telem s @ [AssignTry so w b r 1 False, AssignTry so w' b r 2 ok]))"
proof -
  let ?x = "fst (put_work_order_line env w b r (world s))"
  let ?ok = "case ?x of None \<Rightarrow> False | Some r \<Rightarrow> status_code r = 200"
  let ?s2 = "emit (AssignTry so w b r 1 False) (s\<lparr>world := snd (put_work_order_line env w b r (world s))\<rparr>)"
  show ?thesis
  proof (cases ?ok)
    case True
    then show ?thesis using assms
      by (subst assign_attempts.simps) (auto simp add: update_wol_eq emit_def Let_def)
  next
    case False
    define p where "p = (if idx = 0 then
                           (case call (run_getOpenPPGWOLines_specific env oid) ?s2 of
                              (dfPPG_WOLines_ref, s3) \<Rightarrow>
                                (if dfPPG_WOLines_ref \<noteq> []
                                 then WorkorderlineId (hd dfPPG_WOLines_ref) else w, s3))
                         else (w, ?s2))"
    have t3: "telem (snd p) = telem s @ [AssignTry so w b r 1 False]"
      by (simp add: p_def call_simps emit_def)
    from assign_attempts_second[OF assms, of env so oid b r idx "fst p" "snd p"] obtain ok s' where
      a2: "assign_attempts cfg env so oid b r idx (Suc 0) (fst p) (snd p) = (Inr ok, s')"
      and t': "telem s' = telem (snd p) @ [AssignTry so (fst p) b r 2 ok]" by blast
    have "assign_attempts cfg env so oid b r idx 0 w s =
            assign_attempts cfg env so oid b r idx (Suc 0) (fst p) (snd p)"
      apply (subst assign_attempts.simps)
      using assms False by (simp add: update_wol_eq Let_def case_prod_beta p_def)
    then have "assign_attempts cfg env so oid b r idx 0 w s = (Inr ok, s')"
      using a2 by simp
    then show ?thesis using t' t3 by auto
  qed
qed


lemma assign_lines_raise:
  "\<not> env_ok cfg \<Longrightarrow>
     assign_lines cfg env so oid b r idx (row # rows) s = (Inl (ValueError require_env_msg), s)"
  by (simp add: assign_attempts_raise)

lemma assign_lines_later:
  assumes "env_ok cfg" and "0 < idx"
  shows "\<exists>evs. fst (assign_lines cfg env so oid b r idx rows s) = Inr True \<and>
           telem (snd (assign_lines cfg env so oid b r idx rows s)) = telem s @ evs \<and>
           list_all is_try evs"
  using assms(2)
proof (induction rows arbitrary: idx s)
  case Nil
  then show ?case by simp
next
  case (Cons row rows)
  from assign_attempts_first[OF assms(1), of env so oid b r idx "WorkorderlineId row" s]
  obtain ok s' where a: "assign_attempts cfg env so oid b r idx 0 (WorkorderlineId row) s = (Inr ok, s')"
    and t: "telem s' = telem s @ [AssignTry so (WorkorderlineId row) b r 1 True] \<and> ok \<or>
            (\<exists>w'. telem s' = telem s @ [AssignTry so (WorkorderlineId row) b r 1 False,
                                         AssignTry so w' b r 2 ok])" by blast
  from t obtain e1 where t1: "telem s' = telem s @ e1" "list_all is_try e1" by auto
  have step: "assign_lines cfg env so oid b r idx (row # rows) s =
                assign_lines cfg env so oid b r (Suc idx) rows s'"
    using a Cons.prems by simp
  from Cons.IH[of "Suc idx" s'] obtain evs where
    e: "fst (assign_lines cfg env so oid b r (Suc idx) rows s') = Inr True"
       "telem (snd (assign_lines cfg env so oid b r (Suc idx) rows s')) = telem s' @ evs"
       "list_all is_try evs"
    by auto
  show ?case unfolding step using e t1
    by (intro exI[of _ "e1 @ evs"]) simp
qed

lemma assign_lines_first:
  assumes "env_ok cfg"
  shows "\<exists>evs. telem (snd (assign_lines cfg env so oid b r 0 (row # rows) s)) = telem s @ evs \<and>
           assign_events so r (fst (assign_lines cfg env so oid b r 0 (row # rows) s)) evs"
proof -
  from assign_attempts_first[OF assms, of env so oid b r 0 "WorkorderlineId row" s]
  obtain ok s' where a: "assign_attempts cfg env so oid b r 0 0 (WorkorderlineId row) s = (Inr ok, s')"
    and t: "telem s' = telem s @ [AssignTry so (WorkorderlineId row) b r 1 True] \<and> ok \<or>
            (\<exists>w'. telem s' = telem s @ [AssignTry so (WorkorderlineId row) b r 1 False,
                                         AssignTry so w' b r 2 ok])" by blast
  show ?thesis
  proof (cases ok)
    case False
    then have "assign_lines cfg env so oid b r 0 (row # rows) s = (Inr False, s')"
      using a by simp
    then show ?thesis using t False by (auto simp: assign_events_def)
  next
    case True
    then have step: "assign_lines cfg env so oid b r 0 (row # rows) s =
                assign_lines cfg env so oid b r (Suc 0) rows s'"
      using a by simp
    from assign_lines_later[OF assms, of "Suc 0" env so oid b r rows s'] obtain evs where
      e: "fst (assign_lines cfg env so oid b r (Suc 0) rows s') = Inr True"
         "telem (snd (assign_lines cfg env so oid b r (Suc 0) rows s')) = telem s' @ evs"
         "list_all is_try evs"
      by auto
    from t True show ?thesis
    proof (elim disjE exE conjE)
      assume "telem s' = telem s @ [AssignTry so (WorkorderlineId row) b r 1 True]"
      then show ?thesis unfolding step using e
        by (intro exI[of _ "AssignTry so (WorkorderlineId row) b r 1 True # evs"])
           (auto simp: assign_events_def)
    next
      fix w' assume "telem s' = telem s @ [AssignTry so (WorkorderlineId row) b r 1 False,
                                         AssignTry so w' b r 2 ok]"
      then show ?thesis unfolding step using e True
        by (intro exI[of _ "AssignTry so (WorkorderlineId row) b r 1 False # AssignTry so w' b r 2 True # evs"])
           (auto simp: assign_events_def)
    qed
  qed
qed

lemma addOrderToBatch_events:
  "\<exists>evs. telem (snd (addOrderToBatch cfg env so b r s)) = telem s @ evs \<and>
         assign_events so r (fst (addOrderToBatch cfg env so b r s)) evs"
proof -
  obtain df0 s0 where c0: "call (run_getOpenPPGPickOrders_specific env so) s = (df0, s0)"
    by (meson surj_pair)
  obtain df1 s1 where c1:
    "(if df0 = [] then prewait_poll (polls_in_window env AddPrewait (world s0)) env so df0 s0
      else (df0, s0)) = (df1, s1)"
    by (meson surj_pair)
  obtain wl s2 where c2:
    "wait_for_wolines env (MasterorderId (hd df1)) (WOL_POLL_ATTEMPTS cfg) s1 = (wl, s2)"
    by (meson surj_pair)
  obtain r3 s3 where c3: "createBatch cfg env b s2 = (r3, s3)"
    by (meson surj_pair)
  obtain df4 s4 where c4: "call (run_getOpenPPGBatches_specific env b) s3 = (df4, s4)"
    by (meson surj_pair)
  have t0: "telem s0 = telem s" using telem_call[of "run_getOpenPPGPickOrders_specific env so" s] c0 by simp
  have t1: "telem s1 = telem s"
    using c1 prewait_poll_telem[of "polls_in_window env AddPrewait (world s0)" env so df0 s0] t0
    by (auto split: if_splits)
  have t2: "telem s2 = telem s"
    using wait_for_wolines_telem[of env "MasterorderId (hd df1)" "WOL_POLL_ATTEMPTS cfg" s1] c2 t1 by simp
  have t3: "telem s3 = telem s"
    using createBatch_loop_telem[of 61 cfg env b s2] c3 t2 by (simp add: createBatch_def)
  have t4: "telem s4 = telem s"
    using telem_call[of "run_getOpenPPGBatches_specific env b" s3] c4 t3 by simp
  have unf: "addOrderToBatch cfg env so b r s =
      (if df1 = [] then (Inr False, s1)
       else if wl = [] then (Inr False, s2)
       else (case r3 of
               Inl e \<Rightarrow> (Inl e, s3)
             | Inr made \<Rightarrow>
                 if \<not> made then (Inr False, s3)
                 else if df4 = [] then (Inr False, s4)
                 else assign_lines cfg env so (MasterorderId (hd df1)) (WorkorderId (hd df4)) r 0 wl s4))"
    by (simp add: addOrderToBatch_def c0 c1 c2 c3 c4 Let_def split: sum.splits)
  show ?thesis
  proof (cases "df1 = [] \<or> wl = [] \<or> (\<exists>e. r3 = Inl e) \<or> r3 = Inr False \<or> df4 = []")
    case True
    then show ?thesis unfolding unf using t1 t2 t3 t4
      by (auto simp: assign_events_def split: sum.splits)
  next
    case False
    then obtain row rows where rows: "wl = row # rows" by (cases wl) auto
    from False have made: "r3 = Inr True" by (cases r3) auto
    have eq: "addOrderToBatch cfg env so b r s =
                assign_lines cfg env so (MasterorderId (hd df1)) (WorkorderId (hd df4)) r 0
                  (row # rows) s4"
      unfolding unf using False made rows by simp
    show ?thesis
    proof (cases "env_ok cfg")
      case True
      from assign_lines_first[OF True, of env so "MasterorderId (hd df1)" "WorkorderId (hd df4)" r row rows s4]
      show ?thesis unfolding eq t4 .
    next
      case False
      have "assign_lines cfg env so (MasterorderId (hd df1)) (WorkorderId (hd df4)) r 0
                  (row # rows) s4 = (Inl (ValueError require_env_msg), s4)"
        using False by (rule assign_lines_raise)
      then show ?thesis unfolding eq using t4
        by (simp add: assign_events_def del: assign_lines.simps)
    qed
  qed
qed


lemma cleanup_telem:
  "telem (snd (case deAllocateOrder cfg env so s of
                 (Inl e, s1) \<Rightarrow> (Inl e, s1)
               | (Inr deAllocated, s1) \<Rightarrow> deleteOrder cfg env so s1)) = telem s"
proof -
  obtain r1 s1 where d: "deAllocateOrder cfg env so s = (r1, s1)" by (meson surj_pair)
  have t1: "telem s1 = telem s"
    using deAllocateOrder_loop_telem[of 61 cfg env so s] d by (simp add: deAllocateOrder_def)
  show ?thesis using t1 deleteOrder_loop_telem[of 61 cfg env so s1]
    by (cases r1) (simp_all add: d deleteOrder_def)
qed

lemma so_try_events:
  "\<exists>evs. telem (snd (so_try cfg env bom snap b rank so s)) = telem s @ evs \<and>
         so_events cfg (filter (\<lambda>r. DocNum r = so) bom) so rank
           (fst (so_try cfg env bom snap b rank so s)) evs"
proof (cases "bom = [] \<or> snap = []")
  case True
  then show ?thesis by (auto simp: so_try_def so_events_def Let_def)
next
  case False
  let ?bs = "filter (\<lambda>r. DocNum r = so) bom"
  let ?fl = "filter (\<lambda>r. U_PLS_PPG_ITEM r = ''Y'') ?bs"
  obtain rc sc where c: "(if filter (\<lambda>r. MasterorderName r = so) snap \<noteq> [] then
                   (case deAllocateOrder cfg env so s of
                      (Inl e, s1) \<Rightarrow> (Inl e, s1)
                    | (Inr deAllocated, s1) \<Rightarrow> deleteOrder cfg env so s1)
                 else (Inr True, s)) = (rc, sc)" by (meson surj_pair)
  have tc: "telem sc = telem s"
    using c cleanup_telem[of cfg env so s] by (auto split: if_splits)
  obtain rk sk where k: "createOrder cfg env so ?bs sc = (rk, sk)" by (meson surj_pair)
  obtain ra sa where a: "addOrderToBatch cfg env so b rank sk = (ra, sa)" by (meson surj_pair)
  have unf: "so_try cfg env bom snap b rank so s =
     (case rc of
        Inl e \<Rightarrow> (Excepted e, sc)
      | Inr cleaned \<Rightarrow>
          (case rk of
             Inl e \<Rightarrow> (Excepted e, sk)
           | Inr created \<Rightarrow>
               if is_defer_create created then (DeferCreate, sk)
               else if py_bool created then
                 (case ra of Inl e \<Rightarrow> (Excepted e, sa)
                  | Inr success \<Rightarrow> (if success then Added else DeferAdd, sa))
               else (CreateFailed, sk)))"
    using False by (simp add: so_try_def Let_def c k a split: sum.splits)
  from addOrderToBatch_events[of cfg env so b rank sk] a obtain ae where
    ae: "telem sa = telem sk @ ae" "assign_events so rank ra ae" by auto
  have ao: "add_outcome so rank (case ra of Inl e \<Rightarrow> Excepted e | Inr ok \<Rightarrow> if ok then Added else DeferAdd) ae"
    using ae(2) by (auto simp: add_outcome_def)
  have kf: "rk = fst (createOrder cfg env so ?bs sc)" and kt: "telem sk = telem (snd (createOrder cfg env so ?bs sc))"
    using k by simp_all
  show ?thesis
  proof (cases rc)
    case (Inl e)
    then show ?thesis unfolding unf using tc by (simp add: so_events_def)
  next
    case (Inr cleaned)
    note rc = this
    let ?vis = "fst (run_getOpenPPGPickOrders_specific env so (world sc)) \<noteq> []"
    let ?x = "fst (post_orders env so ?fl (snd (run_getOpenPPGPickOrders_specific env so (world sc))))"
    consider (vis) ?vis | (nobom) "\<not> ?vis" "?fl = []" | (noenv) "\<not> ?vis" "?fl \<noteq> []" "\<not> env_ok cfg"
      | (post) "\<not> ?vis" "?fl \<noteq> []" "env_ok cfg" by blast
    then show ?thesis
    proof cases
      case vis
      then have "rk = Inr (PBool True)" "telem sk = telem s @ [PreCreateSnapshot so True]"
        unfolding kf kt by (simp_all add: createOrder_fst createOrder_telem tc)
      then show ?thesis unfolding unf rc using ae ao
        by (cases ra) (auto simp: so_events_def is_defer_create_def py_bool_def)
    next
      case nobom
      then have "rk = Inr (PBool False)" "telem sk = telem s @ [PreCreateSnapshot so False]"
        unfolding kf kt by (simp_all add: createOrder_fst createOrder_telem tc)
      then show ?thesis unfolding unf rc using nobom
        by (simp add: so_events_def is_defer_create_def py_bool_def)
    next
      case noenv
      then have "rk = Inl (ValueError require_env_msg)" "telem sk = telem s @ [PreCreateSnapshot so False]"
        unfolding kf kt by (simp_all add: createOrder_fst createOrder_telem tc)
      then show ?thesis unfolding unf rc using noenv
        by (simp add: so_events_def)
    next
      case post
      then have rk: "rk = Inr (create_result ?x)"
        and tk: "telem sk = telem s @ [PreCreateSnapshot so False, CreateSend so,
                                        CreateAck so (map_option status_code ?x)]"
        unfolding kf kt by (simp_all add: createOrder_fst createOrder_telem tc)
      show ?thesis
      proof (cases "is_defer_create (create_result ?x)")
        case True
        then show ?thesis unfolding unf rc rk using tk post
          by (auto simp: so_events_def)
      next
        case False
        note nd = this
        show ?thesis
        proof (cases "py_bool (create_result ?x)")
          case False
          then show ?thesis unfolding unf rc rk using tk post nd
            by (auto simp: so_events_def)
        next
          case True
          have "so_events cfg ?bs so rank
                  (case ra of Inl e \<Rightarrow> Excepted e | Inr ok \<Rightarrow> if ok then Added else DeferAdd)
                  (PreCreateSnapshot so False # CreateSend so # CreateAck so (map_option status_code ?x) # ae)"
            unfolding so_events_def Let_def using post nd True ao by auto
          then show ?thesis unfolding unf rc rk using tk nd True ae(1)
            by (cases ra) (auto)
        qed
      qed
    qed
  qed
qed


section \<open>One sales order in the main pass\<close>

lemma assign_events_tries: "assign_events so r res ae \<Longrightarrow> list_all is_try ae"
  by (auto simp: assign_events_def split: sum.splits if_splits)




lemma add_outcome_tries: "add_outcome so r out ae \<Longrightarrow> list_all is_try ae"
  by (auto simp: add_outcome_def dest: assign_events_tries)


lemma so_events_not_visible_no_bom:
  assumes "so_events cfg bs so r out evs" and "PreCreateSnapshot so' False \<in> set evs"
    and "filter (\<lambda>r. U_PLS_PPG_ITEM r = ''Y'') bs = []"
  shows "out = CreateFailed \<and> evs = [PreCreateSnapshot so False]"
proof -
  have notin: "PreCreateSnapshot so' False \<notin> set ae" if "add_outcome so r out ae" for ae
    using add_outcome_tries[OF that] by (auto simp: list_all_iff)
  show ?thesis using assms notin unfolding so_events_def Let_def
    by (elim disjE exE conjE) auto
qed





lemma process_so_CreateFailed:
  assumes "so_try cfg env bom snap (PPG_BatchName (j_row j)) (j_rank j) soNum (sys st) = (CreateFailed, s')"
  shows "process_so cfg env bom snap thread_id j soNum st =
     (let df_ok = (if j_df_ok j = [] then [row_out (j_row j) (j_alloc j)]
                   else filter (\<lambda>x. PPG_BatchName x \<noteq> PPG_BatchName (j_row j)) (j_df_ok j)
                        @ [row_out (j_row j) (j_alloc j)]);
          errs = j_df_errors j @ [error_row (j_row j) soNum ''create_failed'']
      in (j\<lparr>j_df_errors := errs, j_df_ok := df_ok\<rparr>,
          st\<lparr>sys := s',
             shards := (shards st)(thread_id \<mapsto> df_ok),
             err_files := (err_files st)(thread_id \<mapsto> errs)\<rparr>))"
  using assms by (simp add: process_so_def Let_def)

lemma sys_process_so:
  "sys (snd (process_so cfg env bom snap thread_id j soNum st)) =
     snd (so_try cfg env bom snap (PPG_BatchName (j_row j)) (j_rank j) soNum (sys st))"
  by (simp add: process_so_def Let_def case_prod_beta split: so_outcome.splits)

lemma process_so_events:
  assumes "process_so cfg env bom snap thread_id j soNum st = (j', st')"
    and "telem (sys st') = telem (sys st) @ evs"
  shows "so_events cfg (filter (\<lambda>r. DocNum r = soNum) bom) soNum (j_rank j)
           (fst (so_try cfg env bom snap (PPG_BatchName (j_row j)) (j_rank j) soNum (sys st))) evs"
proof -
  from so_try_events[of cfg env bom snap "PPG_BatchName (j_row j)" "j_rank j" soNum "sys st"]
  obtain evs' where e: "telem (snd (so_try cfg env bom snap (PPG_BatchName (j_row j)) (j_rank j) soNum (sys st)))
                           = telem (sys st) @ evs'"
    and s: "so_events cfg (filter (\<lambda>r. DocNum r = soNum) bom) soNum (j_rank j)
           (fst (so_try cfg env bom snap (PPG_BatchName (j_row j)) (j_rank j) soNum (sys st))) evs'"
    by blast
  have "sys st' = snd (so_try cfg env bom snap (PPG_BatchName (j_row j)) (j_rank j) soNum (sys st))"
    using sys_process_so[of cfg env bom snap thread_id j soNum st] assms(1) by simp
  with e assms(2) have "evs' = evs" by simp
  with s show ?thesis by simp
qed

lemma row_out_fields [simp]:
  "PPG_BatchName (row_out row xs) = PPG_BatchName row"
  "ordersBatched (row_out row xs) = join_comma_space xs"
  "soCount (row_out row xs) = length xs"
  by (simp_all add: row_out_def)

subsection \<open>First-line gating\<close>



subsection \<open>A create answered with HTTP 500\<close>



subsection \<open>A sales order without PPG-flagged lines\<close>

text \<open>
  Claim C10, as the code has it. \<open>createOrder\<close> first asks the service whether the order is
  already visible and returns True if it is, before it looks at the BOM rows.  So the claim
  holds for orders that are not visible at that check: with no row flagged \<open>Y\<close>, the step
  sends nothing, \<open>createOrder\<close> returns False, the error table gains the row with reason
  \<open>create_failed\<close>, and neither deferred map gains the order, so no tail pass revisits it.
\<close>

theorem no_ppg_items_create_failed:
  assumes "process_so cfg env bom snap thread_id j soNum st = (j', st')"
    and "telem (sys st') = telem (sys st) @ evs"
    and "PreCreateSnapshot soNum False \<in> set evs"
    and "filter (\<lambda>r. U_PLS_PPG_ITEM r = ''Y'') (filter (\<lambda>r. DocNum r = soNum) bom) = []"
  shows "evs = [PreCreateSnapshot soNum False] \<and>
         j_df_errors j' = j_df_errors j @ [error_row (j_row j) soNum ''create_failed''] \<and>
         err_files st' thread_id = Some (j_df_errors j') \<and>
         deferred_create_map st' = deferred_create_map st \<and> deferred_map st' = deferred_map st \<and>
         batch_order_counts st' = batch_order_counts st \<and> commits st' = commits st \<and>
         j_alloc j' = j_alloc j \<and>
         (\<forall>df s. fst (run_getOpenPPGPickOrders_specific env soNum (world s)) = [] \<and>
                 filter (\<lambda>r. U_PLS_PPG_ITEM r = ''Y'') df = [] \<longrightarrow>
                 fst (createOrder cfg env soNum df s) = Inr (PBool False) \<and>
                 telem (snd (createOrder cfg env soNum df s))
                   = telem s @ [PreCreateSnapshot soNum False])"
proof -
  obtain out s' where st: "so_try cfg env bom snap (PPG_BatchName (j_row j)) (j_rank j) soNum (sys st) = (out, s')"
    by (meson surj_pair)
  have "so_events cfg (filter (\<lambda>r. DocNum r = soNum) bom) soNum (j_rank j) out evs"
    using process_so_events[OF assms(1,2)] st by simp
  then have oe: "out = CreateFailed \<and> evs = [PreCreateSnapshot soNum False]"
    using assms(3,4) by (rule so_events_not_visible_no_bom)
  with st have st': "so_try cfg env bom snap (PPG_BatchName (j_row j)) (j_rank j) soNum (sys st) = (CreateFailed, s')"
    by simp
  note p = process_so_CreateFailed[OF st', of thread_id]
  have main: "j_df_errors j' = j_df_errors j @ [error_row (j_row j) soNum ''create_failed''] \<and>
         err_files st' thread_id = Some (j_df_errors j') \<and>
         deferred_create_map st' = deferred_create_map st \<and> deferred_map st' = deferred_map st \<and>
         batch_order_counts st' = batch_order_counts st \<and> commits st' = commits st \<and>
         j_alloc j' = j_alloc j"
    using assms(1) unfolding p Let_def by (auto split: if_splits)
  have low: "fst (createOrder cfg env soNum df s) = Inr (PBool False) \<and>
                 telem (snd (createOrder cfg env soNum df s))
                   = telem s @ [PreCreateSnapshot soNum False]"
    if "fst (run_getOpenPPGPickOrders_specific env soNum (world s)) = []"
       "filter (\<lambda>r. U_PLS_PPG_ITEM r = ''Y'') df = []" for df s
    using that by (simp add: createOrder_fst createOrder_telem)
  show ?thesis using oe main low by simp
qed

theorem no_ppg_items_create_failed_witness:
  "telem (sys (snd (process_so cfg_ok error500_env bom3_unflagged snap_other 1 job3 ''SO3'' (launch_state () [] 1))))
     = telem (sys (launch_state () [] 1)) @ [PreCreateSnapshot ''SO3'' False] \<and>
   PreCreateSnapshot ''SO3'' False \<in> set [PreCreateSnapshot ''SO3'' False] \<and>
   filter (\<lambda>r. U_PLS_PPG_ITEM r = ''Y'') (filter (\<lambda>r. DocNum r = ''SO3'') bom3_unflagged) = [] \<and>
   j_df_errors (fst (process_so cfg_ok error500_env bom3_unflagged snap_other 1 job3 ''SO3'' (launch_state () [] 1)))
     = j_df_errors job3 @ [error_row (j_row job3) ''SO3'' ''create_failed'']"
proof -
  let ?P = "process_so cfg_ok error500_env bom3_unflagged snap_other 1 job3 ''SO3'' (launch_state () [] 1)"
  have p: "?P = (fst ?P, snd ?P)" by simp
  have e: "telem (sys (snd ?P)) = telem (sys (launch_state () [] 1)) @ [PreCreateSnapshot ''SO3'' False]"
    by code_simp
  have f: "PreCreateSnapshot ''SO3'' False \<in> set [PreCreateSnapshot ''SO3'' False]" by simp
  have g: "filter (\<lambda>r. U_PLS_PPG_ITEM r = ''Y'') (filter (\<lambda>r. DocNum r = ''SO3'') bom3_unflagged) = []"
    by (simp add: bom3_unflagged_def)
  note c = no_ppg_items_create_failed[OF p e f g]
  from c have c1: "j_df_errors (fst ?P) = j_df_errors job3 @ [error_row (j_row job3) ''SO3'' ''create_failed'']"
    by blast
  show ?thesis using e f g c1 by (intro conjI)
qed

text \<open>
  For an order that is already visible the same BOM rows give a different result:
  \<open>createOrder\<close> returns True, the step goes on to the assignment, and no error row is written.
\<close>

theorem no_ppg_items_visible_counterexample:
  "filter (\<lambda>r. U_PLS_PPG_ITEM r = ''Y'') (filter (\<lambda>r. DocNum r = ''SO3'') bom3_unflagged) = [] \<and>
   fst (createOrder cfg_ok failing_env ''SO3'' (filter (\<lambda>r. DocNum r = ''SO3'') bom3_unflagged)
          \<lparr>world = (), telem = []\<rparr>) = Inr (PBool True) \<and>
   j_df_errors (fst (process_so cfg_ok failing_env bom3_unflagged snap_other 1 job3 ''SO3''
                      (launch_state () [] 1))) = [] \<and>
   err_files (snd (process_so cfg_ok failing_env bom3_unflagged snap_other 1 job3 ''SO3''
                      (launch_state () [] 1))) 1 = None"
  by code_simp

subsection \<open>A create acknowledged without a JSON body\<close>

text \<open>
  Claim C5. \<open>createFullSOPickOrder\<close> returns the parsed JSON body of a successful response and
  the empty dictionary when the body cannot be parsed; the caller tests the result for
  truthiness.  A create answered with HTTP 201 and no JSON body is therefore recorded as
  \<open>create_failed\<close>, and the order is not assigned, although the service has created it.
\<close>

theorem create_acknowledged_without_json_body:
  "fst (createFullSOPickOrder cfg_ok created_env ''SO3'' bom3 \<lparr>world = (), telem = []\<rparr>) = Inr (PDict []) \<and>
   telem (sys (snd (process_so cfg_ok created_env bom3 snap_other 1 job3 ''SO3'' (launch_state () [] 1))))
     = [PreCreateSnapshot ''SO3'' False, CreateSend ''SO3'', CreateAck ''SO3'' (Some 201)] \<and>
   j_df_errors (fst (process_so cfg_ok created_env bom3 snap_other 1 job3 ''SO3'' (launch_state () [] 1)))
     = [error_row row3 ''SO3'' ''create_failed''] \<and>
   j_alloc (fst (process_so cfg_ok created_env bom3 snap_other 1 job3 ''SO3'' (launch_state () [] 1))) = []"
  by code_simp


section \<open>The phases of a run\<close>

lemma launch_Inr_state:
  assumes "launch env batch_names num_threads df_parquet w0 = Some (Inr (bom, snap, st0))"
  shows "\<exists>w n. st0 = launch_state w (df_batches_sorted (prepare_batches_for_ppg batch_names df_parquet)) n"
  using assms by (auto simp: launch_def Let_def split: prod.splits if_splits)

lemma run_Completed:
  assumes "launch env batch_names num_threads df_parquet w0 = Some (Inr (bom, snap, st0))"
    and "run_specificBatches_optimized cfg env batch_names num_threads df_parquet sched w0 = Completed st"
  shows "pool_done (pool_run cfg env bom snap sched st0) \<and>
         fst (retry_deferred_tail cfg env (pool_run cfg env bom snap sched st0)) = None \<and>
         st = retry_deferred_create_then_add_tail cfg env bom
                (snd (retry_deferred_tail cfg env (pool_run cfg env bom snap sched st0)))"
  using assms(2)
  by (auto simp: run_specificBatches_optimized_def assms(1) Let_def
           split: if_splits prod.splits option.splits)

lemma run_Completed_intro:
  assumes "launch env batch_names num_threads df_parquet w0 = Some (Inr (bom, snap, st0))"
    and "pool_done (pool_run cfg env bom snap sched st0)"
    and "fst (retry_deferred_tail cfg env (pool_run cfg env bom snap sched st0)) = None"
  shows "run_specificBatches_optimized cfg env batch_names num_threads df_parquet sched w0
           = Completed (retry_deferred_create_then_add_tail cfg env bom
                (snd (retry_deferred_tail cfg env (pool_run cfg env bom snap sched st0))))"
  using assms(2,3)
  by (auto simp: run_specificBatches_optimized_def assms(1) Let_def
           split: if_splits prod.splits option.splits)

lemma run_Completed_launch:
  assumes "run_specificBatches_optimized cfg env batch_names num_threads df_parquet sched w0 = Completed st"
  shows "\<exists>bom snap st0. launch env batch_names num_threads df_parquet w0 = Some (Inr (bom, snap, st0))"
  using assms
  by (auto simp: run_specificBatches_optimized_def split: option.splits sum.splits)


section \<open>Assignment failures and the error table\<close>










section \<open>How often a create is submitted\<close>

lemma create_sends_append [simp]:
  "create_sends so (xs @ ys) = create_sends so xs + create_sends so ys"
  by (simp add: create_sends_def)

lemma create_sends_Nil [simp]: "create_sends so [] = 0"
  by (simp add: create_sends_def)

lemma create_sends_Cons [simp]:
  "create_sends so (e # es) = (if e = CreateSend so then 1 else 0) + create_sends so es"
  by (simp add: create_sends_def)

lemma tries_no_sends: "list_all is_try ae \<Longrightarrow> create_sends so ae = 0"
proof (induction ae)
  case Nil
  then show ?case by simp
next
  case (Cons e ae)
  then show ?case by (cases e) simp_all
qed

lemma add_outcome_not_DeferCreate:
  assumes "add_outcome so r out ae"
  shows "out \<noteq> DeferCreate"
proof -
  from assms obtain res where
    "out = (case res of Inl e \<Rightarrow> Excepted e | Inr ok \<Rightarrow> if ok then Added else DeferAdd)"
    by (auto simp: add_outcome_def)
  then show ?thesis by (cases res) auto
qed

lemma so_events_sends:
  assumes "so_events cfg bs so' r out evs"
  shows "create_sends so evs \<le> (if so = so' then 1 else 0) \<and>
         (out = DeferCreate \<longrightarrow> create_sends so' evs = 1)"
proof -
  have z: "create_sends x ae = 0" if "add_outcome so' r out ae" for ae x
    using add_outcome_tries[OF that] by (rule tries_no_sends)
  have nd: "out \<noteq> DeferCreate" if "add_outcome so' r out ae" for ae
    using that by (rule add_outcome_not_DeferCreate)
  show ?thesis using assms unfolding so_events_def Let_def
    by (elim disjE exE conjE) (auto simp: z nd split: if_splits)
qed

text \<open>What one sales order of the main pass leaves alone, and what it adds.\<close>

lemma process_so_frame:
  assumes "process_so cfg env bom snap tid j so' st = (j', st')"
  shows "workers st' = workers st \<and> queue st' = queue st \<and> j_todo j' = j_todo j \<and>
         j_row j' = j_row j"
proof -
  obtain out s' where t: "so_try cfg env bom snap (PPG_BatchName (j_row j)) (j_rank j) so' (sys st) = (out, s')"
    by (meson surj_pair)
  show ?thesis using assms
    by (cases out) (auto simp: process_so_def t Let_def)
qed

lemma process_so_deferred_create:
  assumes "process_so cfg env bom snap tid j so' st = (j', st')"
  shows "deferred_create_map st' =
           (if fst (so_try cfg env bom snap (PPG_BatchName (j_row j)) (j_rank j) so' (sys st)) = DeferCreate
            then setdefault_append (deferred_create_map st) (PPG_BatchName (j_row j)) so'
            else deferred_create_map st)"
proof -
  obtain out s' where t: "so_try cfg env bom snap (PPG_BatchName (j_row j)) (j_rank j) so' (sys st) = (out, s')"
    by (meson surj_pair)
  show ?thesis using assms
    by (cases out) (auto simp: process_so_def t Let_def)
qed

lemma process_so_sends:
  assumes "process_so cfg env bom snap tid j so' st = (j', st')"
  shows "\<exists>evs. telem (sys st') = telem (sys st) @ evs \<and>
           create_sends so evs \<le> (if so = so' then 1 else 0) \<and>
           (deferred_create_map st' = deferred_create_map st \<or>
            deferred_create_map st'
              = setdefault_append (deferred_create_map st) (PPG_BatchName (j_row j)) so' \<and>
            create_sends so' evs = 1)"
proof -
  let ?T = "so_try cfg env bom snap (PPG_BatchName (j_row j)) (j_rank j) so' (sys st)"
  from so_try_events[of cfg env bom snap "PPG_BatchName (j_row j)" "j_rank j" so' "sys st"]
  obtain evs where e: "telem (snd ?T) = telem (sys st) @ evs"
    and s: "so_events cfg (filter (\<lambda>r. DocNum r = so') bom) so' (j_rank j) (fst ?T) evs"
    by blast
  have sy: "sys st' = snd ?T"
    using sys_process_so[of cfg env bom snap tid j so' st] assms by simp
  note c = so_events_sends[OF s, of so]
  note d = process_so_deferred_create[OF assms]
  show ?thesis
  proof (intro exI conjI)
    show "telem (sys st') = telem (sys st) @ evs" using e sy by simp
    show "create_sends so evs \<le> (if so = so' then 1 else 0)" using c by simp
    show "deferred_create_map st' = deferred_create_map st \<or>
            deferred_create_map st'
              = setdefault_append (deferred_create_map st) (PPG_BatchName (j_row j)) so' \<and>
            create_sends so' evs = 1"
      using d so_events_sends[OF s, of so'] by (auto split: if_splits)
  qed
qed

text \<open>The deferred-create map has one entry per batch name.\<close>

lemma fst_setdefault_append:
  "map fst (setdefault_append m k v) = (if k \<in> fst ` set m then map fst m else map fst m @ [k])"
  by (auto simp: setdefault_append_def case_prod_beta)

lemma distinct_setdefault_append:
  "distinct (map fst m) \<Longrightarrow> distinct (map fst (setdefault_append m k v))"
  by (auto simp: fst_setdefault_append)

lemma sum_setdefault_append:
  assumes "distinct (map fst m)"
  shows "sum_list (map (\<lambda>p. count_list (snd p) so) (setdefault_append m k v))
           = sum_list (map (\<lambda>p. count_list (snd p) so) m) + (if v = so then 1 else 0)"
proof (cases "k \<in> fst ` set m")
  case False
  then show ?thesis by (simp add: setdefault_append_def)
next
  case True
  have "sum_list (map (\<lambda>p. count_list (snd p) so)
                   (map (\<lambda>(k', vs). if k' = k then (k', vs @ [v]) else (k', vs)) m))
          = sum_list (map (\<lambda>p. count_list (snd p) so) m) + (if v = so then 1 else 0)"
    using assms True
  proof (induction m)
    case Nil
    then show ?case by simp
  next
    case (Cons p m)
    obtain k' vs where p: "p = (k', vs)" by (cases p)
    show ?case
    proof (cases "k' = k")
      case True
      then have "k \<notin> fst ` set m" using Cons.prems p by auto
      then have "map (\<lambda>(k', vs). if k' = k then (k', vs @ [v]) else (k', vs)) m = m"
        by (induction m) auto
      then show ?thesis using True p by simp
    next
      case False
      then have "k \<in> fst ` set m" using Cons.prems p by auto
      then show ?thesis using Cons False p by simp
    qed
  qed
  then show ?thesis using True by (simp add: setdefault_append_def)
qed

lemma sum_list_sort: "sum_list (map f (sort xs)) = sum_list (map (f :: 'a::linorder \<Rightarrow> nat) xs)"
proof -
  have "sum_list (map f (sort xs)) = sum_mset (mset (map f (sort xs)))"
    by (simp only: sum_mset_sum_list)
  also have "\<dots> = sum_mset (mset (map f xs))" by simp
  also have "\<dots> = sum_list (map f xs)" by (simp only: sum_mset_sum_list)
  finally show ?thesis .
qed

lemma sum_list_sort_key:
  "sum_list (map f (sort_key k xs)) = sum_list (map (f :: 'a \<Rightarrow> nat) xs)"
proof -
  have "sum_list (map f (sort_key k xs)) = sum_mset (mset (map f (sort_key k xs)))"
    by (simp only: sum_mset_sum_list)
  also have "\<dots> = sum_mset (mset (map f xs))" by simp
  also have "\<dots> = sum_list (map f xs)" by (simp only: sum_mset_sum_list)
  finally show ?thesis .
qed

lemma count_list_concat:
  "count_list (concat xss) x = sum_list (map (\<lambda>xs. count_list xs x) xss)"
  by (induction xss) simp_all

lemma deferred_count_sum:
  assumes "distinct (map fst m)"
  shows "deferred_count so m = sum_list (map (\<lambda>p. count_list (snd p) so) m)"
proof -
  have a: "map snd (deferred_entries m) = concat (map (entries_of m) (sort (remdups (map fst m))))"
    by (simp add: deferred_entries_def map_concat comp_def)
  have b: "remdups (map fst m) = map fst m" using assms by simp
  have c: "entries_of m (fst p) = snd p" if "p \<in> set m" for p
    using assms that by (cases p) (simp add: entries_of_def)
  have "deferred_count so m
          = sum_list (map (\<lambda>b. count_list (entries_of m b) so) (sort (map fst m)))"
    by (simp add: deferred_count_def a b count_list_concat comp_def)
  also have "\<dots> = sum_list (map (\<lambda>b. count_list (entries_of m b) so) (map fst m))"
    by (rule sum_list_sort)
  also have "\<dots> = sum_list (map (\<lambda>p. count_list (snd p) so) m)"
    using c by (simp add: comp_def cong: map_cong)
  finally show ?thesis .
qed

lemma deferred_count_setdefault_append:
  assumes "distinct (map fst m)"
  shows "deferred_count so (setdefault_append m k v)
           = deferred_count so m + (if v = so then 1 else 0)"
  using assms
  by (simp add: deferred_count_sum distinct_setdefault_append sum_setdefault_append)

lemma sum_update:
  "i < length ws \<Longrightarrow>
   sum_list (map f (ws[i := w'])) + f (ws ! i) = sum_list (map f ws) + (f w' :: nat)"
  by (induction ws arbitrary: i) (auto split: nat.splits)

lemma pool_step_sends_inv:
  assumes "sends_inv so n st"
  shows "sends_inv so n (pool_step cfg env bom snap i st)"
proof (cases "i < length (workers st) \<and> \<not> exited (workers st ! i)")
  case False
  then show ?thesis using assms by (auto simp: pool_step_def Let_def)
next
  case True
  let ?w = "workers st ! i"
  let ?f = "todo_count so"
  from True have il: "i < length (workers st)" and ne: "\<not> exited ?w" by simp_all
  show ?thesis
  proof (cases "current ?w")
    case None
    then have f0: "?f ?w = 0" by (simp add: todo_count_def)
    show ?thesis
    proof (cases "queue st")
      case Nil
      have ps: "pool_step cfg env bom snap i st = st\<lparr>workers := (workers st)[i := ?w\<lparr>exited := True\<rparr>]\<rparr>"
        using il ne None Nil by (simp add: pool_step_def Let_def)
      have "?f (?w\<lparr>exited := True\<rparr>) = 0" using None by (simp add: todo_count_def)
      then have "sum_list (map ?f ((workers st)[i := ?w\<lparr>exited := True\<rparr>])) = sum_list (map ?f (workers st))"
        using sum_update[OF il, of ?f "?w\<lparr>exited := True\<rparr>"] f0 by simp
      then show ?thesis using assms unfolding ps by (simp add: sends_inv_def pending_def)
    next
      case (Cons row q)
      obtain j st1 where sr: "start_row (i + 1) row (st\<lparr>queue := q\<rparr>) = (j, st1)" by (meson surj_pair)
      have ps: "pool_step cfg env bom snap i st = st1\<lparr>workers := (workers st1)[i := ?w\<lparr>current := Some j\<rparr>]\<rparr>"
        using il ne None Cons sr by (simp add: pool_step_def Let_def)
      from sr have j: "j_todo j = safe_split_docnums (DocNums row)"
        and s1: "workers st1 = workers st" "queue st1 = q" "sys st1 = sys st"
                "deferred_create_map st1 = deferred_create_map st"
        by (auto simp: start_row_def Let_def)
      have "?f (?w\<lparr>current := Some j\<rparr>) = count_list (safe_split_docnums (DocNums row)) so"
        using j by (simp add: todo_count_def)
      then have "sum_list (map ?f ((workers st)[i := ?w\<lparr>current := Some j\<rparr>]))
                   = sum_list (map ?f (workers st)) + count_list (safe_split_docnums (DocNums row)) so"
        using sum_update[OF il, of ?f "?w\<lparr>current := Some j\<rparr>"] f0 by simp
      then have "pending so (pool_step cfg env bom snap i st) = pending so st"
        unfolding ps by (simp add: pending_def s1 Cons occurrences_def)
      then show ?thesis using assms unfolding sends_inv_def
        by (simp add: ps s1)
    qed
  next
    case (Some j)
    show ?thesis
    proof (cases "j_todo j")
      case Nil
      have ps: "pool_step cfg env bom snap i st =
                  st\<lparr>df_errors_by_thread := (df_errors_by_thread st)(i + 1 \<mapsto> j_df_errors j),
                     workers := (workers st)[i := ?w\<lparr>current := None\<rparr>]\<rparr>"
        using il ne Some Nil by (simp add: pool_step_def Let_def)
      have f0: "?f ?w = 0" using Some Nil by (simp add: todo_count_def)
      have "?f (?w\<lparr>current := None\<rparr>) = 0" by (simp add: todo_count_def)
      then have "sum_list (map ?f ((workers st)[i := ?w\<lparr>current := None\<rparr>])) = sum_list (map ?f (workers st))"
        using sum_update[OF il, of ?f "?w\<lparr>current := None\<rparr>"] f0 by simp
      then show ?thesis using assms unfolding ps by (simp add: sends_inv_def pending_def)
    next
      case (Cons so' rest)
      obtain j' st1 where p: "process_so cfg env bom snap (i + 1) (j\<lparr>j_todo := rest\<rparr>) so' st = (j', st1)"
        by (meson surj_pair)
      have ps: "pool_step cfg env bom snap i st = st1\<lparr>workers := (workers st1)[i := ?w\<lparr>current := Some j'\<rparr>]\<rparr>"
        using il ne Some Cons p by (simp add: pool_step_def Let_def)
      from process_so_frame[OF p] have fr: "workers st1 = workers st" "queue st1 = queue st" "j_todo j' = rest"
        by simp_all
      from process_so_sends[OF p, of so] obtain evs where
        e: "telem (sys st1) = telem (sys st) @ evs"
        and c: "create_sends so evs \<le> (if so = so' then 1 else 0)"
        and d: "deferred_create_map st1 = deferred_create_map st \<or>
                deferred_create_map st1
                  = setdefault_append (deferred_create_map st) (PPG_BatchName (j_row (j\<lparr>j_todo := rest\<rparr>))) so' \<and>
                create_sends so' evs = 1"
        by blast
      have fo: "?f ?w = (if so' = so then 1 else 0) + count_list rest so"
        using Some Cons by (simp add: todo_count_def)
      have fn: "?f (?w\<lparr>current := Some j'\<rparr>) = count_list rest so"
        using fr by (simp add: todo_count_def)
      have su: "sum_list (map ?f ((workers st)[i := ?w\<lparr>current := Some j'\<rparr>])) + (if so' = so then 1 else 0)
                  = sum_list (map ?f (workers st))"
        using sum_update[OF il, of ?f "?w\<lparr>current := Some j'\<rparr>"] fo fn by simp
      have pe: "pending so (pool_step cfg env bom snap i st) + (if so' = so then 1 else 0) = pending so st"
        unfolding ps using su by (simp add: pending_def fr)
      have a: "create_sends so (telem (sys st)) + pending so st \<le> n"
        and b: "deferred_count so (deferred_create_map st) \<le> create_sends so (telem (sys st))"
        and di: "distinct (map fst (deferred_create_map st))"
        using assms by (simp_all add: sends_inv_def)
      have g1: "create_sends so (telem (sys st1)) + pending so (pool_step cfg env bom snap i st) \<le> n"
        using a c pe e by (auto split: if_splits)
      have g2: "deferred_count so (deferred_create_map st1) \<le> create_sends so (telem (sys st1))"
        using d
      proof
        assume "deferred_create_map st1 = deferred_create_map st"
        then show ?thesis using b e by simp
      next
        assume h: "deferred_create_map st1
                  = setdefault_append (deferred_create_map st) (PPG_BatchName (j_row (j\<lparr>j_todo := rest\<rparr>))) so' \<and>
                create_sends so' evs = 1"
        then show ?thesis using b e di
          by (auto simp: deferred_count_setdefault_append)
      qed
      have g3: "distinct (map fst (deferred_create_map st1))"
        using d di by (auto simp: distinct_setdefault_append)
      show ?thesis unfolding sends_inv_def using g1 g2 g3 by (simp add: ps)
    qed
  qed
qed

lemma pool_run_sends_inv:
  "sends_inv so n st \<Longrightarrow> sends_inv so n (pool_run cfg env bom snap sched st)"
  unfolding pool_run_def
  by (induction sched arbitrary: st) (simp_all add: pool_step_sends_inv)

text \<open>The tail passes.\<close>

lemma addOrderToBatch_sends:
  "create_sends so (telem (snd (addOrderToBatch cfg env n b r s))) = create_sends so (telem s)"
proof -
  from addOrderToBatch_events[of cfg env n b r s] obtain ae where
    ae: "telem (snd (addOrderToBatch cfg env n b r s)) = telem s @ ae"
        "assign_events n r (fst (addOrderToBatch cfg env n b r s)) ae" by blast
  have "create_sends so ae = 0" using ae(2) by (intro tries_no_sends assign_events_tries)
  then show ?thesis using ae(1) by simp
qed

lemma retry_deferred_loop_sends:
  "create_sends so (telem (sys (snd (snd (retry_deferred_loop cfg env es m st)))))
     = create_sends so (telem (sys st)) \<and>
   deferred_create_map (snd (snd (retry_deferred_loop cfg env es m st))) = deferred_create_map st"
proof (induction es arbitrary: m st)
  case Nil
  then show ?case by simp
next
  case (Cons e es)
  obtain b n where e: "e = (b, n)" by (cases e)
  obtain df s1 where c: "call (run_getOpenPPGPickOrders_specific env n) (sys st) = (df, s1)"
    by (meson surj_pair)
  have t1: "telem s1 = telem (sys st)" using telem_call[of "run_getOpenPPGPickOrders_specific env n" "sys st"] c by simp
  obtain r s2 where a: "addOrderToBatch cfg env n b (Suc (count_of (batch_order_counts st) b)) s1 = (r, s2)"
    by (meson surj_pair)
  have t2: "create_sends so (telem s2) = create_sends so (telem (sys st))"
    using addOrderToBatch_sends[of so cfg env n b "Suc (count_of (batch_order_counts st) b)" s1] a t1 by simp
  show ?case unfolding e
    by (cases r) (simp_all add: c a t1 t2 Cons.IH Let_def)
qed

lemma retry_deferred_tail_sends:
  "create_sends so (telem (sys (snd (retry_deferred_tail cfg env st)))) = create_sends so (telem (sys st)) \<and>
   deferred_create_map (snd (retry_deferred_tail cfg env st)) = deferred_create_map st"
proof -
  obtain r m st1 where l: "retry_deferred_loop cfg env (deferred_entries (deferred_map st)) [] st = (r, m, st1)"
    by (metis prod_cases3)
  have "create_sends so (telem (sys st1)) = create_sends so (telem (sys st)) \<and>
        deferred_create_map st1 = deferred_create_map st"
    using retry_deferred_loop_sends[of so cfg env "deferred_entries (deferred_map st)" "[]" st] l by simp
  then show ?thesis by (cases r) (simp_all add: retry_deferred_tail_def l)
qed

lemma createOrder_sends:
  "create_sends so (telem (snd (createOrder cfg env n bs s)))
     \<le> create_sends so (telem s) + (if n = so then 1 else 0)"
  by (simp add: createOrder_telem)

lemma retry_create_entry_sends:
  "create_sends so (telem (sys (snd (retry_create_entry cfg env bom (b, n) acc))))
     \<le> create_sends so (telem (sys (snd acc)))
        + (if n = so \<and> \<not> fst (final_visibility_wait_for_order env n (sys (snd acc))) then 1 else 0) \<and>
   deferred_create_map (snd (retry_create_entry cfg env bom (b, n) acc)) = deferred_create_map (snd acc)"
proof -
  obtain lm st where acc: "acc = (lm, st)" by (cases acc)
  obtain v s1 where f: "final_visibility_wait_for_order env n (sys st) = (v, s1)" by (meson surj_pair)
  have t1: "telem s1 = telem (sys st)"
    using visible_poll_telem[of "polls_in_window env FinalWait (world (sys st))" env n "sys st"] f
    by (simp add: final_visibility_wait_for_order_def)
  obtain rc s2 where k: "createOrder cfg env n (filter (\<lambda>r. DocNum r = n) bom) s1 = (rc, s2)"
    by (meson surj_pair)
  have t2: "create_sends so (telem s2) \<le> create_sends so (telem (sys st)) + (if n = so then 1 else 0)"
    using createOrder_sends[of so cfg env n "filter (\<lambda>r. DocNum r = n) bom" s1] k t1 by simp
  have ad: "create_sends so (telem (snd (addOrderToBatch cfg env n b r s))) = create_sends so (telem s)" for r s
    by (rule addOrderToBatch_sends)
  show ?thesis
  proof (cases v)
    case True
    obtain ra sa where a: "addOrderToBatch cfg env n b (Suc (count_of (batch_order_counts st) b)) s1 = (ra, sa)"
      by (meson surj_pair)
    have "create_sends so (telem sa) = create_sends so (telem (sys st))"
      using ad[of "Suc (count_of (batch_order_counts st) b)" s1] a t1 by simp
    then show ?thesis using True
      by (cases ra) (simp_all add: retry_create_entry_def acc f a Let_def)
  next
    case False
    show ?thesis
    proof (cases "bom = []")
      case True
      then show ?thesis using False by (simp add: retry_create_entry_def acc f t1 Let_def)
    next
      case nb: False
      show ?thesis
      proof (cases rc)
        case (Inl x)
        then show ?thesis using False nb t2 by (simp add: retry_create_entry_def acc f k Let_def)
      next
        case (Inr created)
        obtain ra sa where a: "addOrderToBatch cfg env n b (Suc (count_of (batch_order_counts st) b)) s2 = (ra, sa)"
          by (meson surj_pair)
        have sa: "create_sends so (telem sa) = create_sends so (telem s2)"
          using ad[of "Suc (count_of (batch_order_counts st) b)" s2] a by simp
        show ?thesis using False nb t2 Inr a sa
          by (cases ra) (auto simp add: retry_create_entry_def acc f k Let_def split: if_splits)
      qed
    qed
  qed
qed

lemma fold_retry_create_entry_sends:
  "create_sends so (telem (sys (snd (fold (retry_create_entry cfg env bom) es acc))))
     \<le> create_sends so (telem (sys (snd acc))) + count_list (map snd es) so \<and>
   deferred_create_map (snd (fold (retry_create_entry cfg env bom) es acc)) = deferred_create_map (snd acc)"
proof (induction es arbitrary: acc)
  case Nil
  then show ?case by simp
next
  case (Cons e es)
  obtain b n where e: "e = (b, n)" by (cases e)
  note h = retry_create_entry_sends[of so cfg env bom b n acc]
  note ih = Cons.IH[of "retry_create_entry cfg env bom (b, n) acc"]
  show ?case unfolding e using h ih by (auto split: if_splits)
qed

lemma retry_deferred_create_sends:
  "create_sends so (telem (sys (retry_deferred_create_then_add_tail cfg env bom st)))
     \<le> create_sends so (telem (sys st)) + deferred_count so (deferred_create_map st) \<and>
   deferred_create_map (retry_deferred_create_then_add_tail cfg env bom st) = deferred_create_map st"
  using fold_retry_create_entry_sends[of so cfg env bom "deferred_entries (deferred_create_map st)" "([], st)"]
  by (simp add: retry_deferred_create_then_add_tail_def case_prod_beta deferred_count_def)

lemma occurrences_sorted: "occurrences so (df_batches_sorted df) = occurrences so (df_rows df)"
  by (simp add: occurrences_def df_batches_sorted_def sum_list_sort_key)

lemma deferred_entries_Nil [simp]: "deferred_entries [] = []"
  by (simp add: deferred_entries_def)

lemma sends_inv_launch: "sends_inv so (occurrences so q) (launch_state w q n)"
  by (simp add: sends_inv_def pending_def todo_count_def deferred_count_def sum_list_replicate)

text \<open>
  Claim C3, as the code has it. The loop over the sales orders of a batch row does not
  remove repeated entries, and every deferred create gets its own entry in the
  deferred-create map.  So the bound is per listing: in a run that completes, the create
  request of a sales order is sent at most once in the main pass for each time the order is
  listed in the batch table; the deferred-create map gets at most one entry of the order per
  create sent; the deferred-add tail sends no create request; and the deferred-create tail
  sends at most one more request for each entry, and none for an entry whose order shows up
  during the final visibility wait.  The tails never add to the deferred-create map, so a
  second defer result ends the handling of the entry.  A sales order that is listed once is
  submitted at most twice in the whole run; one that is listed \<open>n\<close> times, at most \<open>2 * n\<close>
  times.
\<close>

theorem create_submitted_at_most_twice:
  assumes "launch env batch_names num_threads df_parquet w0 = Some (Inr (bom, snap, st0))"
    and "run_specificBatches_optimized cfg env batch_names num_threads df_parquet sched w0 = Completed st"
  shows "create_sends so (telem (sys (pool_run cfg env bom snap sched st0)))
           \<le> occurrences so (df_rows (prepare_batches_for_ppg batch_names df_parquet)) \<and>
         deferred_count so (deferred_create_map (pool_run cfg env bom snap sched st0))
           \<le> create_sends so (telem (sys (pool_run cfg env bom snap sched st0))) \<and>
         create_sends so (telem (sys (snd (retry_deferred_tail cfg env (pool_run cfg env bom snap sched st0)))))
           = create_sends so (telem (sys (pool_run cfg env bom snap sched st0))) \<and>
         create_sends so (telem (sys st))
           \<le> create_sends so (telem (sys (pool_run cfg env bom snap sched st0)))
              + deferred_count so (deferred_create_map (pool_run cfg env bom snap sched st0)) \<and>
         create_sends so (telem (sys st))
           \<le> 2 * occurrences so (df_rows (prepare_batches_for_ppg batch_names df_parquet)) \<and>
         (occurrences so (df_rows (prepare_batches_for_ppg batch_names df_parquet)) \<le> 1 \<longrightarrow>
            create_sends so (telem (sys (pool_run cfg env bom snap sched st0))) \<le> 1 \<and>
            create_sends so (telem (sys st)) \<le> 2) \<and>
         deferred_create_map st = deferred_create_map (pool_run cfg env bom snap sched st0) \<and>
         (\<forall>b acc. fst (final_visibility_wait_for_order env so (sys (snd acc))) \<longrightarrow>
            create_sends so (telem (sys (snd (retry_create_entry cfg env bom (b, so) acc))))
              \<le> create_sends so (telem (sys (snd acc))))"
proof -
  let ?n = "occurrences so (df_rows (prepare_batches_for_ppg batch_names df_parquet))"
  let ?st1 = "pool_run cfg env bom snap sched st0"
  let ?st2 = "snd (retry_deferred_tail cfg env ?st1)"
  from launch_Inr_state[OF assms(1)] obtain w n where
    st0: "st0 = launch_state w (df_batches_sorted (prepare_batches_for_ppg batch_names df_parquet)) n"
    by blast
  have "sends_inv so ?n st0" unfolding st0
    using sends_inv_launch[of so "df_batches_sorted (prepare_batches_for_ppg batch_names df_parquet)" w n]
    by (simp add: occurrences_sorted)
  then have i1: "sends_inv so ?n ?st1" by (rule pool_run_sends_inv)
  then have a: "create_sends so (telem (sys ?st1)) \<le> ?n"
    and b: "deferred_count so (deferred_create_map ?st1) \<le> create_sends so (telem (sys ?st1))"
    by (simp_all add: sends_inv_def)
  from run_Completed[OF assms] have st: "st = retry_deferred_create_then_add_tail cfg env bom ?st2"
    by simp
  note t1 = retry_deferred_tail_sends[of so cfg env ?st1]
  note t2 = retry_deferred_create_sends[of so cfg env bom ?st2]
  have c: "create_sends so (telem (sys ?st2)) = create_sends so (telem (sys ?st1))"
    and c': "deferred_create_map ?st2 = deferred_create_map ?st1" using t1 by simp_all
  have d: "create_sends so (telem (sys st))
             \<le> create_sends so (telem (sys ?st1)) + deferred_count so (deferred_create_map ?st1)"
    and d': "deferred_create_map st = deferred_create_map ?st1"
    using t2 c c' unfolding st by simp_all
  have e: "create_sends so (telem (sys st)) \<le> 2 * ?n" using a b d by linarith
  have f: "create_sends so (telem (sys (snd (retry_create_entry cfg env bom (b, so) acc))))
              \<le> create_sends so (telem (sys (snd acc)))"
    if "fst (final_visibility_wait_for_order env so (sys (snd acc)))" for b acc
    using retry_create_entry_sends[of so cfg env bom b so acc] that by simp
  have g: "create_sends so (telem (sys ?st1)) \<le> 1 \<and> create_sends so (telem (sys st)) \<le> 2"
    if "?n \<le> 1"
    using that a e by linarith
  show ?thesis using a b c d e g d' f by (intro conjI allI impI) simp_all
qed

theorem create_submitted_at_most_twice_witness:
  "launch server_error_env [] 1 df3 ()
     = Some (Inr (bom3, snap_other,
                  launch_state () (df_batches_sorted (prepare_batches_for_ppg [] df3)) 1)) \<and>
   run_specificBatches_optimized cfg_ok server_error_env [] 1 df3 [0, 0, 0, 0] ()
     = Completed
         (retry_deferred_create_then_add_tail cfg_ok server_error_env bom3
            (snd (retry_deferred_tail cfg_ok server_error_env
                    (pool_run cfg_ok server_error_env bom3 snap_other [0, 0, 0, 0]
                       (launch_state () (df_batches_sorted (prepare_batches_for_ppg [] df3)) 1))))) \<and>
   occurrences ''SO3'' (df_rows (prepare_batches_for_ppg [] df3)) \<le> 1 \<and>
   create_sends ''SO3''
     (telem (sys (retry_deferred_create_then_add_tail cfg_ok server_error_env bom3
            (snd (retry_deferred_tail cfg_ok server_error_env
                    (pool_run cfg_ok server_error_env bom3 snap_other [0, 0, 0, 0]
                       (launch_state () (df_batches_sorted (prepare_batches_for_ppg [] df3)) 1)))))))
     \<le> 2 \<and>
   create_sends ''SO3''
     (telem (sys (retry_deferred_create_then_add_tail cfg_ok server_error_env bom3
            (snd (retry_deferred_tail cfg_ok server_error_env
                    (pool_run cfg_ok server_error_env bom3 snap_other [0, 0, 0, 0]
                       (launch_state () (df_batches_sorted (prepare_batches_for_ppg [] df3)) 1))))))) = 2"
proof -
  let ?ini = "launch_state () (df_batches_sorted (prepare_batches_for_ppg [] df3)) 1"
  let ?mid = "pool_run cfg_ok server_error_env bom3 snap_other [0, 0, 0, 0] ?ini"
  let ?fin = "retry_deferred_create_then_add_tail cfg_ok server_error_env bom3
               (snd (retry_deferred_tail cfg_ok server_error_env ?mid))"
  have l: "launch server_error_env [] 1 df3 () = Some (Inr (bom3, snap_other, ?ini))"
    by (simp add: launch_def Let_def server_error_env_def prepare_batches_for_ppg_def df3_def)
  have pd: "pool_done ?mid" by code_simp
  have nr: "fst (retry_deferred_tail cfg_ok server_error_env ?mid) = None" by code_simp
  have r: "run_specificBatches_optimized cfg_ok server_error_env [] 1 df3 [0, 0, 0, 0] () = Completed ?fin"
    using l pd nr by (rule run_Completed_intro)
  have oc: "occurrences ''SO3'' (df_rows (prepare_batches_for_ppg [] df3)) \<le> 1" by code_simp
  have two: "create_sends ''SO3'' (telem (sys ?fin)) = 2" by code_simp
  note c = create_submitted_at_most_twice[OF l r, of "''SO3''"]
  from c oc have le: "create_sends ''SO3'' (telem (sys ?fin)) \<le> 2" by blast
  show ?thesis using l r oc le two by (intro conjI)
qed

text \<open>
  A sales order listed twice in its batch row, on a service whose create request always
  answers HTTP 500: the main pass sends the create twice, both are answered 500, each leaves
  an entry in the deferred-create map, and the tail sends it twice more. Four submissions
  in one completed run.
\<close>

theorem create_listed_twice_counterexample:
  "run_specificBatches_optimized cfg_ok server_error_env [] 1 df_listed_twice [0, 0, 0, 0, 0] ()
     = Completed
         (retry_deferred_create_then_add_tail cfg_ok server_error_env bom3
            (snd (retry_deferred_tail cfg_ok server_error_env
                    (pool_run cfg_ok server_error_env bom3 snap_other [0, 0, 0, 0, 0]
                       (launch_state () (df_batches_sorted (prepare_batches_for_ppg [] df_listed_twice)) 1))))) \<and>
   occurrences ''SO3'' (df_rows (prepare_batches_for_ppg [] df_listed_twice)) = 2 \<and>
   create_sends ''SO3''
     (telem (sys (pool_run cfg_ok server_error_env bom3 snap_other [0, 0, 0, 0, 0]
                    (launch_state () (df_batches_sorted (prepare_batches_for_ppg [] df_listed_twice)) 1))))
     = 2 \<and>
   filter (\<lambda>e. e = CreateAck ''SO3'' (Some 500))
     (telem (sys (pool_run cfg_ok server_error_env bom3 snap_other [0, 0, 0, 0, 0]
                    (launch_state () (df_batches_sorted (prepare_batches_for_ppg [] df_listed_twice)) 1))))
     = [CreateAck ''SO3'' (Some 500), CreateAck ''SO3'' (Some 500)] \<and>
   create_sends ''SO3''
     (telem (sys (retry_deferred_create_then_add_tail cfg_ok server_error_env bom3
            (snd (retry_deferred_tail cfg_ok server_error_env
                    (pool_run cfg_ok server_error_env bom3 snap_other [0, 0, 0, 0, 0]
                       (launch_state () (df_batches_sorted (prepare_batches_for_ppg [] df_listed_twice)) 1)))))))
     = 4 \<and>
   \<not> create_sends ''SO3''
     (telem (sys (retry_deferred_create_then_add_tail cfg_ok server_error_env bom3
            (snd (retry_deferred_tail cfg_ok server_error_env
                    (pool_run cfg_ok server_error_env bom3 snap_other [0, 0, 0, 0, 0]
                       (launch_state () (df_batches_sorted (prepare_batches_for_ppg [] df_listed_twice)) 1)))))))
     \<le> 2"
proof -
  let ?ini = "launch_state () (df_batches_sorted (prepare_batches_for_ppg [] df_listed_twice)) 1"
  let ?mid = "pool_run cfg_ok server_error_env bom3 snap_other [0, 0, 0, 0, 0] ?ini"
  let ?fin = "retry_deferred_create_then_add_tail cfg_ok server_error_env bom3
               (snd (retry_deferred_tail cfg_ok server_error_env ?mid))"
  have l: "launch server_error_env [] 1 df_listed_twice () = Some (Inr (bom3, snap_other, ?ini))"
    by (simp add: launch_def Let_def server_error_env_def prepare_batches_for_ppg_def df_listed_twice_def)
  have pd: "pool_done ?mid" by code_simp
  have nr: "fst (retry_deferred_tail cfg_ok server_error_env ?mid) = None" by code_simp
  have r: "run_specificBatches_optimized cfg_ok server_error_env [] 1 df_listed_twice [0, 0, 0, 0, 0] ()
             = Completed ?fin"
    using l pd nr by (rule run_Completed_intro)
  have oc: "occurrences ''SO3'' (df_rows (prepare_batches_for_ppg [] df_listed_twice)) = 2" by code_simp
  have m: "create_sends ''SO3'' (telem (sys ?mid)) = 2" by code_simp
  have a: "filter (\<lambda>e. e = CreateAck ''SO3'' (Some 500)) (telem (sys ?mid))
             = [CreateAck ''SO3'' (Some 500), CreateAck ''SO3'' (Some 500)]" by code_simp
  have f: "create_sends ''SO3'' (telem (sys ?fin)) = 4" by code_simp
  then have n: "\<not> create_sends ''SO3'' (telem (sys ?fin)) \<le> 2" by simp
  show ?thesis using r oc m a f n by (intro conjI)
qed


section \<open>Rank density\<close>

lemma ranks_of_append [simp]: "ranks_of b (cs @ ds) = ranks_of b cs @ ranks_of b ds"
  by (simp add: ranks_of_def)

lemma ranks_of_single [simp]: "ranks_of b [(b', so, r)] = (if b' = b then [r] else [])"
  by (simp add: ranks_of_def)

lemma count_of_upd [simp]: "count_of (m(k \<mapsto> v)) b = (if b = k then v else count_of m b)"
  by (simp add: count_of_def)

lemma process_so_ranks:
  assumes "process_so cfg env bom snap tid j so' st = (j', st')"
  shows "(batch_order_counts st' = batch_order_counts st \<and> commits st' = commits st \<and>
          j_rank j' = j_rank j) \<or>
         (batch_order_counts st' =
            (batch_order_counts st)(PPG_BatchName (j_row j) \<mapsto>
               count_of (batch_order_counts st) (PPG_BatchName (j_row j)) + 1) \<and>
          commits st' = commits st @ [(PPG_BatchName (j_row j), so', j_rank j)] \<and>
          j_rank j' = count_of (batch_order_counts st) (PPG_BatchName (j_row j)) + 2)"
proof -
  obtain out s' where t: "so_try cfg env bom snap (PPG_BatchName (j_row j)) (j_rank j) so' (sys st) = (out, s')"
    by (meson surj_pair)
  show ?thesis using assms
    by (cases out) (auto simp: process_so_def t Let_def)
qed

lemma holds_two:
  assumes "i < length ws" and "k < length ws" and "i \<noteq> k"
  shows "holds b (ws ! i) + holds b (ws ! k) \<le> sum_list (map (holds b) ws)"
proof -
  let ?z = "\<lparr>current = None, exited = False\<rparr>"
  have z: "holds b ?z = 0" by (simp add: holds_def)
  have "holds b ((ws[i := ?z]) ! k) \<in> set (map (holds b) (ws[i := ?z]))"
    using assms(2) by (intro nth_mem[THEN imageI, of k "ws[i := ?z]" "holds b", unfolded set_map[symmetric]]) simp
  then have "holds b (ws ! k) \<le> sum_list (map (holds b) (ws[i := ?z]))"
    using assms(3) by (simp add: member_le_sum_list del: set_map)
  then show ?thesis using sum_update[OF assms(1), of "holds b" ?z] z by simp
qed

lemma start_row_counts:
  assumes "start_row tid row st = (j, st1)"
  shows "j_row j = row \<and> j_rank j = count_of (batch_order_counts st) (PPG_BatchName row) + 1 \<and>
         workers st1 = workers st \<and> queue st1 = queue st \<and> commits st1 = commits st \<and>
         count_of (batch_order_counts st1) = count_of (batch_order_counts st)"
proof (cases "PPG_BatchName row \<in> dom (batch_order_counts st)")
  case True
  then show ?thesis using assms by (auto simp: start_row_def Let_def)
next
  case False
  then have n: "batch_order_counts st (PPG_BatchName row) = None" by (simp add: domIff)
  have "count_of ((batch_order_counts st)(PPG_BatchName row \<mapsto> 0)) x = count_of (batch_order_counts st) x" for x
    using n by (simp add: count_of_def)
  then have "count_of ((batch_order_counts st)(PPG_BatchName row \<mapsto> 0)) = count_of (batch_order_counts st)"
    by (simp add: fun_eq_iff)
  then show ?thesis using assms False by (auto simp: start_row_def Let_def simp del: count_of_upd)
qed

lemma upt_snoc: "[1 ..< Suc n] @ [Suc n] = [1 ..< Suc (Suc n)]"
  by simp

lemma pool_step_rank_inv:
  assumes "rank_inv b st"
  shows "rank_inv b (pool_step cfg env bom snap i st)"
proof (cases "i < length (workers st) \<and> \<not> exited (workers st ! i)")
  case False
  then show ?thesis using assms by (auto simp: pool_step_def Let_def)
next
  case True
  let ?w = "workers st ! i"
  let ?f = "holds b"
  let ?c = "count_of (batch_order_counts st) b"
  from True have il: "i < length (workers st)" and ne: "\<not> exited ?w" by simp_all
  from assms have de: "ranks_of b (commits st) = [1 ..< Suc ?c]"
    and ho: "sum_list (map ?f (workers st)) + count_list (map PPG_BatchName (queue st)) b \<le> 1"
    and rk: "\<And>k j. k < length (workers st) \<Longrightarrow> current (workers st ! k) = Some j \<Longrightarrow>
               PPG_BatchName (j_row j) = b \<Longrightarrow> j_rank j = ?c + 1"
    by (simp_all add: rank_inv_def rank_dense_def)
  show ?thesis
  proof (cases "current ?w")
    case None
    then have f0: "?f ?w = 0" by (simp add: holds_def)
    show ?thesis
    proof (cases "queue st")
      case Nil
      have ps: "pool_step cfg env bom snap i st = st\<lparr>workers := (workers st)[i := ?w\<lparr>exited := True\<rparr>]\<rparr>"
        using il ne None Nil by (simp add: pool_step_def Let_def)
      have "?f (?w\<lparr>exited := True\<rparr>) = 0" using None by (simp add: holds_def)
      then have su: "sum_list (map ?f ((workers st)[i := ?w\<lparr>exited := True\<rparr>])) = sum_list (map ?f (workers st))"
        using sum_update[OF il, of ?f "?w\<lparr>exited := True\<rparr>"] f0 by simp
      have r3: "j_rank j = ?c + 1"
        if "k < length (workers st)" "current ((workers st)[i := ?w\<lparr>exited := True\<rparr>] ! k) = Some j"
           "PPG_BatchName (j_row j) = b" for k j
        using that rk[of k j] None il by (cases "k = i") simp_all
      show ?thesis unfolding ps rank_inv_def rank_dense_def using de ho su r3 by simp
    next
      case (Cons row q)
      obtain j st1 where sr: "start_row (i + 1) row (st\<lparr>queue := q\<rparr>) = (j, st1)" by (meson surj_pair)
      have ps: "pool_step cfg env bom snap i st = st1\<lparr>workers := (workers st1)[i := ?w\<lparr>current := Some j\<rparr>]\<rparr>"
        using il ne None Cons sr by (simp add: pool_step_def Let_def)
      from start_row_counts[OF sr]
      have j: "j_row j = row" "j_rank j = count_of (batch_order_counts st1) (PPG_BatchName row) + 1"
        and s1: "workers st1 = workers st" "queue st1 = q" "commits st1 = commits st"
        and c1: "count_of (batch_order_counts st1) = count_of (batch_order_counts st)"
        by simp_all
      have "?f (?w\<lparr>current := Some j\<rparr>) = (if PPG_BatchName row = b then 1 else 0)"
        using j by (simp add: holds_def)
      then have su: "sum_list (map ?f ((workers st)[i := ?w\<lparr>current := Some j\<rparr>]))
                   = sum_list (map ?f (workers st)) + (if PPG_BatchName row = b then 1 else 0)"
        using sum_update[OF il, of ?f "?w\<lparr>current := Some j\<rparr>"] f0 by simp
      have h2: "sum_list (map ?f ((workers st)[i := ?w\<lparr>current := Some j\<rparr>]))
                  + count_list (map PPG_BatchName q) b \<le> 1"
        using ho su Cons by (auto split: if_splits)
      have r3: "j_rank j' = ?c + 1"
        if "k < length (workers st)" "current ((workers st)[i := ?w\<lparr>current := Some j\<rparr>] ! k) = Some j'"
           "PPG_BatchName (j_row j') = b" for k j'
        using that rk[of k j'] il j c1 by (cases "k = i") auto
      show ?thesis unfolding ps rank_inv_def rank_dense_def using de h2 r3 by (simp add: s1 c1)
    qed
  next
    case (Some j)
    show ?thesis
    proof (cases "j_todo j")
      case Nil
      have ps: "pool_step cfg env bom snap i st =
                  st\<lparr>df_errors_by_thread := (df_errors_by_thread st)(i + 1 \<mapsto> j_df_errors j),
                     workers := (workers st)[i := ?w\<lparr>current := None\<rparr>]\<rparr>"
        using il ne Some Nil by (simp add: pool_step_def Let_def)
      have "?f (?w\<lparr>current := None\<rparr>) = 0" by (simp add: holds_def)
      then have su: "sum_list (map ?f ((workers st)[i := ?w\<lparr>current := None\<rparr>])) \<le> sum_list (map ?f (workers st))"
        using sum_update[OF il, of ?f "?w\<lparr>current := None\<rparr>"] by simp
      have r3: "j_rank j' = ?c + 1"
        if "k < length (workers st)" "current ((workers st)[i := ?w\<lparr>current := None\<rparr>] ! k) = Some j'"
           "PPG_BatchName (j_row j') = b" for k j'
        using that rk[of k j'] il by (cases "k = i") simp_all
      show ?thesis unfolding ps rank_inv_def rank_dense_def using de ho su r3 by simp
    next
      case (Cons so' rest)
      let ?b' = "PPG_BatchName (j_row j)"
      obtain j' st1 where p: "process_so cfg env bom snap (i + 1) (j\<lparr>j_todo := rest\<rparr>) so' st = (j', st1)"
        by (meson surj_pair)
      have ps: "pool_step cfg env bom snap i st = st1\<lparr>workers := (workers st1)[i := ?w\<lparr>current := Some j'\<rparr>]\<rparr>"
        using il ne Some Cons p by (simp add: pool_step_def Let_def)
      from process_so_frame[OF p] have fr: "workers st1 = workers st" "queue st1 = queue st" "j_row j' = j_row j"
        by simp_all
      have fw: "?f (?w\<lparr>current := Some j'\<rparr>) = ?f ?w" using Some fr by (simp add: holds_def)
      have su: "sum_list (map ?f ((workers st)[i := ?w\<lparr>current := Some j'\<rparr>])) = sum_list (map ?f (workers st))"
        using sum_update[OF il, of ?f "?w\<lparr>current := Some j'\<rparr>"] fw by simp
      have h2: "sum_list (map ?f ((workers st)[i := ?w\<lparr>current := Some j'\<rparr>]))
                  + count_list (map PPG_BatchName (queue st)) b \<le> 1"
        using ho su by simp
      have other: "PPG_BatchName (j_row jk) \<noteq> b"
        if "k < length (workers st)" "k \<noteq> i" "current (workers st ! k) = Some jk" "?b' = b" for k jk
      proof
        assume "PPG_BatchName (j_row jk) = b"
        then have "?f (workers st ! k) = 1" using that(3) by (simp add: holds_def)
        moreover have "?f ?w = 1" using Some that(4) by (simp add: holds_def)
        ultimately have "2 \<le> sum_list (map ?f (workers st))"
          using holds_two[OF il that(1), of b] that(2) by simp
        then show False using ho by simp
      qed
      from process_so_ranks[OF p]
      consider (same) "batch_order_counts st1 = batch_order_counts st" "commits st1 = commits st"
                      "j_rank j' = j_rank j"
        | (commit) "batch_order_counts st1 =
                      (batch_order_counts st)(?b' \<mapsto> count_of (batch_order_counts st) ?b' + 1)"
                   "commits st1 = commits st @ [(?b', so', j_rank j)]"
                   "j_rank j' = count_of (batch_order_counts st) ?b' + 2"
        by auto
      then show ?thesis
      proof cases
        case same
        have r3: "j_rank jk = ?c + 1"
          if "k < length (workers st)" "current ((workers st)[i := ?w\<lparr>current := Some j'\<rparr>] ! k) = Some jk"
             "PPG_BatchName (j_row jk) = b" for k jk
        proof (cases "k = i")
          case True
          then have "jk = j'" using that il by simp
          then show ?thesis using rk[OF il Some] that(3) fr same by simp
        next
          case False
          then show ?thesis using that rk[of k jk] by simp
        qed
        show ?thesis unfolding ps rank_inv_def rank_dense_def using de h2 r3 same by (simp add: fr)
      next
        case commit
        show ?thesis
        proof (cases "?b' = b")
          case True
          have jr: "j_rank j = ?c + 1" using rk[OF il Some True] .
          have d2: "ranks_of b (commits st1) = [1 ..< Suc (count_of (batch_order_counts st1) b)]"
            using de commit True jr by simp
          have r3: "j_rank jk = count_of (batch_order_counts st1) b + 1"
            if "k < length (workers st)" "current ((workers st)[i := ?w\<lparr>current := Some j'\<rparr>] ! k) = Some jk"
               "PPG_BatchName (j_row jk) = b" for k jk
          proof (cases "k = i")
            case True
            then have "jk = j'" using that il by simp
            then show ?thesis using commit \<open>?b' = b\<close> by simp
          next
            case False
            then have "current (workers st ! k) = Some jk" using that by simp
            from other[OF that(1) False this True] that(3) show ?thesis by simp
          qed
          show ?thesis unfolding ps rank_inv_def rank_dense_def using d2 h2 r3 by (simp add: fr)
        next
          case False
          have d2: "ranks_of b (commits st1) = [1 ..< Suc (count_of (batch_order_counts st1) b)]"
            using de commit False by simp
          have cc: "count_of (batch_order_counts st1) b = ?c" using commit False by simp
          have r3: "j_rank jk = count_of (batch_order_counts st1) b + 1"
            if "k < length (workers st)" "current ((workers st)[i := ?w\<lparr>current := Some j'\<rparr>] ! k) = Some jk"
               "PPG_BatchName (j_row jk) = b" for k jk
          proof (cases "k = i")
            case True
            then have "jk = j'" using that il by simp
            then show ?thesis using that(3) fr False by simp
          next
            case kf: False
            then show ?thesis using that rk[of k jk] cc by simp
          qed
          show ?thesis unfolding ps rank_inv_def rank_dense_def using d2 h2 r3 by (simp add: fr)
        qed
      qed
    qed
  qed
qed

lemma pool_run_rank_inv:
  "rank_inv b st \<Longrightarrow> rank_inv b (pool_run cfg env bom snap sched st)"
  unfolding pool_run_def
  by (induction sched arbitrary: st) (simp_all add: pool_step_rank_inv)

lemma retry_deferred_loop_dense:
  "rank_dense b st \<Longrightarrow> rank_dense b (snd (snd (retry_deferred_loop cfg env es m st)))"
proof (induction es arbitrary: m st)
  case Nil
  then show ?case by simp
next
  case (Cons e es)
  obtain b' n where e: "e = (b', n)" by (cases e)
  obtain df s1 where c: "call (run_getOpenPPGPickOrders_specific env n) (sys st) = (df, s1)"
    by (meson surj_pair)
  obtain r s2 where a: "addOrderToBatch cfg env n b' (Suc (count_of (batch_order_counts st) b')) s1 = (r, s2)"
    by (meson surj_pair)
  have k1: "rank_dense b (st\<lparr>sys := s\<rparr>)" for s using Cons.prems by (simp add: rank_dense_def)
  have k2: "rank_dense b (st\<lparr>sys := s2,
               batch_order_counts := (batch_order_counts st)(b' \<mapsto> Suc (count_of (batch_order_counts st) b')),
               commits := commits st @ [(b', n, Suc (count_of (batch_order_counts st) b'))]\<rparr>)"
    using Cons.prems by (simp add: rank_dense_def)
  show ?case unfolding e
    by (cases r) (simp_all add: c a Let_def Cons.IH[OF k1] Cons.IH[OF k2] k1)
qed

lemma retry_deferred_tail_dense:
  assumes "rank_dense b st"
  shows "rank_dense b (snd (retry_deferred_tail cfg env st))"
proof -
  obtain r m st1 where l: "retry_deferred_loop cfg env (deferred_entries (deferred_map st)) [] st = (r, m, st1)"
    by (metis prod_cases3)
  have "rank_dense b st1"
    using retry_deferred_loop_dense[OF assms, of cfg env "deferred_entries (deferred_map st)" "[]"] l by simp
  then have "rank_dense b (st1\<lparr>shards := x\<rparr>)" for x by (simp add: rank_dense_def)
  then show ?thesis using assms \<open>rank_dense b st1\<close>
    by (cases r) (simp_all add: retry_deferred_tail_def l)
qed

lemma retry_create_entry_dense:
  assumes "rank_dense b (snd acc)"
  shows "rank_dense b (snd (retry_create_entry cfg env bom e acc))"
proof -
  obtain lm st where acc: "acc = (lm, st)" by (cases acc)
  obtain b' n where e: "e = (b', n)" by (cases e)
  have d: "rank_dense b st" using assms acc by simp
  have k1: "rank_dense b (st\<lparr>sys := s\<rparr>)" for s using d by (simp add: rank_dense_def)
  have k2: "rank_dense b (st\<lparr>sys := s,
               batch_order_counts := (batch_order_counts st)(b' \<mapsto> Suc (count_of (batch_order_counts st) b')),
               commits := commits st @ [(b', n, Suc (count_of (batch_order_counts st) b'))]\<rparr>)" for s
    using d by (simp add: rank_dense_def)
  show ?thesis unfolding acc e
    by (simp add: retry_create_entry_def Let_def case_prod_beta k1 k2 split: sum.splits)
qed

lemma fold_retry_create_entry_dense:
  "rank_dense b (snd acc) \<Longrightarrow> rank_dense b (snd (fold (retry_create_entry cfg env bom) es acc))"
  by (induction es arbitrary: acc) (simp_all add: retry_create_entry_dense)

lemma retry_deferred_create_dense:
  assumes "rank_dense b st"
  shows "rank_dense b (retry_deferred_create_then_add_tail cfg env bom st)"
proof -
  have "rank_dense b (snd (fold (retry_create_entry cfg env bom)
                             (deferred_entries (deferred_create_map st)) ([], st)))"
    using assms by (intro fold_retry_create_entry_dense) simp
  then show ?thesis using assms
    by (simp add: retry_deferred_create_then_add_tail_def case_prod_beta rank_dense_def)
qed

lemma count_list_map_sum:
  "count_list (map g xs) b = sum_list (map (\<lambda>x. if g x = b then 1 else 0) xs)"
  by (induction xs) simp_all

lemma count_names_sorted:
  "count_list (map PPG_BatchName (df_batches_sorted df)) b = count_list (map PPG_BatchName (df_rows df)) b"
  by (simp add: count_list_map_sum df_batches_sorted_def sum_list_sort_key)

lemma rank_inv_launch:
  "count_list (map PPG_BatchName q) b \<le> 1 \<Longrightarrow> rank_inv b (launch_state w q n)"
  by (simp add: rank_inv_def rank_dense_def ranks_of_def count_of_def holds_def sum_list_replicate)

text \<open>
  Claim C1, as the code has it. A worker reads the counter of its batch once, when it takes
  the row, and afterwards keeps the next rank in a local variable that it refreshes only
  after its own successes.  When one row of the batch table carries the batch name, no other
  worker touches that counter, and in every completed run, for every schedule of the pool,
  the ranks committed for the batch by the main pass and both tail passes are
  \<open>1, 2, \<dots>, K\<close> in the order of the commits, where \<open>K\<close> is the final counter and the
  number of successful assignments: no gaps and no duplicates.
\<close>

theorem rank_density:
  assumes "count_list (map PPG_BatchName (df_rows (prepare_batches_for_ppg batch_names df_parquet))) b \<le> 1"
    and "run_specificBatches_optimized cfg env batch_names num_threads df_parquet sched w0 = Completed st"
  shows "ranks_of b (commits st) = [1 ..< Suc (count_of (batch_order_counts st) b)] \<and>
         set (ranks_of b (commits st)) = {1 .. count_of (batch_order_counts st) b} \<and>
         distinct (ranks_of b (commits st)) \<and>
         length (ranks_of b (commits st)) = count_of (batch_order_counts st) b"
proof -
  from run_Completed_launch[OF assms(2)] obtain bom snap st0 where
    l: "launch env batch_names num_threads df_parquet w0 = Some (Inr (bom, snap, st0))" by blast
  from launch_Inr_state[OF l] obtain w n where
    st0: "st0 = launch_state w (df_batches_sorted (prepare_batches_for_ppg batch_names df_parquet)) n"
    by blast
  have "rank_inv b st0" unfolding st0
    using assms(1) by (intro rank_inv_launch) (simp add: count_names_sorted)
  then have "rank_inv b (pool_run cfg env bom snap sched st0)" by (rule pool_run_rank_inv)
  then have "rank_dense b (pool_run cfg env bom snap sched st0)" by (simp add: rank_inv_def)
  then have "rank_dense b (snd (retry_deferred_tail cfg env (pool_run cfg env bom snap sched st0)))"
    by (rule retry_deferred_tail_dense)
  then have "rank_dense b (retry_deferred_create_then_add_tail cfg env bom
                (snd (retry_deferred_tail cfg env (pool_run cfg env bom snap sched st0))))"
    by (rule retry_deferred_create_dense)
  then have d: "ranks_of b (commits st) = [1 ..< Suc (count_of (batch_order_counts st) b)]"
    using run_Completed[OF l assms(2)] by (simp add: rank_dense_def)
  have s: "set [1 ..< Suc (count_of (batch_order_counts st) b)] = {1 .. count_of (batch_order_counts st) b}"
    by auto
  show ?thesis unfolding d using s by simp
qed

theorem rank_density_witness:
  "count_list (map PPG_BatchName (df_rows (prepare_batches_for_ppg [] df_one_batch))) ''B1'' \<le> 1 \<and>
   run_specificBatches_optimized cfg_ok success_env [] 1 df_one_batch [0, 0, 0, 0, 0] ()
     = Completed
         (retry_deferred_create_then_add_tail cfg_ok success_env bom3
            (snd (retry_deferred_tail cfg_ok success_env
                    (pool_run cfg_ok success_env bom3 snap_other [0, 0, 0, 0, 0]
                       (launch_state () (df_batches_sorted (prepare_batches_for_ppg [] df_one_batch)) 1))))) \<and>
   ranks_of ''B1''
     (commits (retry_deferred_create_then_add_tail cfg_ok success_env bom3
            (snd (retry_deferred_tail cfg_ok success_env
                    (pool_run cfg_ok success_env bom3 snap_other [0, 0, 0, 0, 0]
                       (launch_state () (df_batches_sorted (prepare_batches_for_ppg [] df_one_batch)) 1))))))
     = [1 ..< Suc (count_of (batch_order_counts
          (retry_deferred_create_then_add_tail cfg_ok success_env bom3
            (snd (retry_deferred_tail cfg_ok success_env
                    (pool_run cfg_ok success_env bom3 snap_other [0, 0, 0, 0, 0]
                       (launch_state () (df_batches_sorted (prepare_batches_for_ppg [] df_one_batch)) 1))))))
          ''B1'')] \<and>
   ranks_of ''B1''
     (commits (retry_deferred_create_then_add_tail cfg_ok success_env bom3
            (snd (retry_deferred_tail cfg_ok success_env
                    (pool_run cfg_ok success_env bom3 snap_other [0, 0, 0, 0, 0]
                       (launch_state () (df_batches_sorted (prepare_batches_for_ppg [] df_one_batch)) 1))))))
     = [1, 2]"
proof -
  let ?ini = "launch_state () (df_batches_sorted (prepare_batches_for_ppg [] df_one_batch)) 1"
  let ?mid = "pool_run cfg_ok success_env bom3 snap_other [0, 0, 0, 0, 0] ?ini"
  let ?fin = "retry_deferred_create_then_add_tail cfg_ok success_env bom3
               (snd (retry_deferred_tail cfg_ok success_env ?mid))"
  have h: "count_list (map PPG_BatchName (df_rows (prepare_batches_for_ppg [] df_one_batch))) ''B1'' \<le> 1"
    by (simp add: prepare_batches_for_ppg_def df_one_batch_def)
  have l: "launch success_env [] 1 df_one_batch () = Some (Inr (bom3, snap_other, ?ini))"
    by (simp add: launch_def Let_def success_env_def prepare_batches_for_ppg_def df_one_batch_def)
  have pd: "pool_done ?mid" by code_simp
  have nr: "fst (retry_deferred_tail cfg_ok success_env ?mid) = None" by code_simp
  have r: "run_specificBatches_optimized cfg_ok success_env [] 1 df_one_batch [0, 0, 0, 0, 0] () = Completed ?fin"
    using l pd nr by (rule run_Completed_intro)
  have two: "ranks_of ''B1'' (commits ?fin) = [1, 2]" by code_simp
  note c = rank_density[OF h r]
  from c have d: "ranks_of ''B1'' (commits ?fin)
                    = [1 ..< Suc (count_of (batch_order_counts ?fin) ''B1'')]" by (rule conjunct1)
  show ?thesis using h r d two by (intro conjI)
qed

text \<open>
  Two rows with the same batch name, taken by two workers: both cache rank 1, both
  assignments succeed, and rank 1 is committed twice while the counter reaches 2.
\<close>

theorem rank_density_counterexample:
  "run_specificBatches_optimized cfg_ok success_env [] 2 df_same_name [0, 1, 0, 1, 0, 1, 0, 1] ()
     = Completed
         (retry_deferred_create_then_add_tail cfg_ok success_env bom3
            (snd (retry_deferred_tail cfg_ok success_env
                    (pool_run cfg_ok success_env bom3 snap_other [0, 1, 0, 1, 0, 1, 0, 1]
                       (launch_state () (df_batches_sorted (prepare_batches_for_ppg [] df_same_name)) 2))))) \<and>
   commits (retry_deferred_create_then_add_tail cfg_ok success_env bom3
            (snd (retry_deferred_tail cfg_ok success_env
                    (pool_run cfg_ok success_env bom3 snap_other [0, 1, 0, 1, 0, 1, 0, 1]
                       (launch_state () (df_batches_sorted (prepare_batches_for_ppg [] df_same_name)) 2)))))
     = [(''B1'', ''SO1'', 1), (''B1'', ''SO2'', 1)] \<and>
   ranks_of ''B1''
     (commits (retry_deferred_create_then_add_tail cfg_ok success_env bom3
            (snd (retry_deferred_tail cfg_ok success_env
                    (pool_run cfg_ok success_env bom3 snap_other [0, 1, 0, 1, 0, 1, 0, 1]
                       (launch_state () (df_batches_sorted (prepare_batches_for_ppg [] df_same_name)) 2))))))
     = [1, 1] \<and>
   count_of (batch_order_counts
       (retry_deferred_create_then_add_tail cfg_ok success_env bom3
            (snd (retry_deferred_tail cfg_ok success_env
                    (pool_run cfg_ok success_env bom3 snap_other [0, 1, 0, 1, 0, 1, 0, 1]
                       (launch_state () (df_batches_sorted (prepare_batches_for_ppg [] df_same_name)) 2))))))
     ''B1'' = 2"
proof -
  let ?ini = "launch_state () (df_batches_sorted (prepare_batches_for_ppg [] df_same_name)) 2"
  let ?mid = "pool_run cfg_ok success_env bom3 snap_other [0, 1, 0, 1, 0, 1, 0, 1] ?ini"
  let ?fin = "retry_deferred_create_then_add_tail cfg_ok success_env bom3
               (snd (retry_deferred_tail cfg_ok success_env ?mid))"
  have l: "launch success_env [] 2 df_same_name () = Some (Inr (bom3, snap_other, ?ini))"
    by (simp add: launch_def Let_def success_env_def prepare_batches_for_ppg_def df_same_name_def)
  have pd: "pool_done ?mid" by code_simp
  have nr: "fst (retry_deferred_tail cfg_ok success_env ?mid) = None" by code_simp
  have r: "run_specificBatches_optimized cfg_ok success_env [] 2 df_same_name [0, 1, 0, 1, 0, 1, 0, 1] ()
             = Completed ?fin"
    using l pd nr by (rule run_Completed_intro)
  have c: "commits ?fin = [(''B1'', ''SO1'', 1), (''B1'', ''SO2'', 1)]" by code_simp
  have k: "count_of (batch_order_counts ?fin) ''B1'' = 2" by code_simp
  have "ranks_of ''B1'' (commits ?fin) = [1, 1]" unfolding c by (simp add: ranks_of_def)
  then show ?thesis using r c k by (intro conjI)
qed

end
